theory Spec2Isabelle
  imports Complex_Main "HOL-Library.Sublist"
begin

section \<open>Values of the host engine\<close>

text \<open>
  A \<^verbatim>\<open>CefValue\<close>, one constructor per value type of \<^verbatim>\<open>cef_value_type_t\<close>. A dictionary is
  the list of its entries, looked up by key.
\<close>

datatype cef_value =
    VTYPE_INVALID
  | VTYPE_NULL
  | VTYPE_BOOL bool
  | VTYPE_INT int
  | VTYPE_DOUBLE real
  | VTYPE_STRING string
  | VTYPE_BINARY string
  | VTYPE_DICTIONARY "(string \<times> cef_value) list"
  | VTYPE_LIST "cef_value list"

type_synonym cef_dictionary = "(string \<times> cef_value) list"

section \<open>Build configuration and host environment\<close>

text \<open>
  \<^verbatim>\<open>extension_util.cc\<close> is compiled once per platform: the preprocessor symbols
  \<^verbatim>\<open>OS_WIN\<close> and \<^verbatim>\<open>OS_POSIX\<close> select code. The platform is a field of the environment,
  so that one model covers both builds.
\<close>

datatype platform = OS_WIN | OS_POSIX

text \<open>
  What the code reads from its host and from headers that are not part of the sources:
  \<^item> \<open>dcheck_is_on\<close>: whether the \<^verbatim>\<open>DCHECK\<close> macro of \<^verbatim>\<open>cef_logging.h\<close> is compiled in
    (debug builds) or expands to nothing (release builds);
  \<^item> \<open>kPathSep\<close>: the constant \<^verbatim>\<open>file_util::kPathSep\<close>;
  \<^item> \<open>resources_dir\<close>: the answer of \<^verbatim>\<open>CefGetPath(PK_DIR_RESOURCES, dir)\<close>, \<open>None\<close> when
    it returns false;
  \<^item> \<open>JoinPath\<close>: \<^verbatim>\<open>file_util::JoinPath\<close>;
  \<^item> \<open>LoadBinaryResource\<close>: \<^verbatim>\<open>LoadBinaryResource(name, contents)\<close>, \<open>None\<close> when it
    returns false, otherwise the contents;
  \<^item> \<open>CefParseJSONAndReturnError\<close>: the engine's JSON parser, giving the parsed value
    (\<open>None\<close> for a null pointer) and the error message it sets;
  \<^item> \<open>GetResourceDir\<close>: \<^verbatim>\<open>GetResourceDir(dir)\<close>, \<open>None\<close> when it returns false.
\<close>

record env =
  platform :: platform
  dcheck_is_on :: bool
  kPathSep :: char
  resources_dir :: "string option"
  JoinPath :: "string \<Rightarrow> string \<Rightarrow> string"
  LoadBinaryResource :: "string \<Rightarrow> string option"
  CefParseJSONAndReturnError :: "string \<Rightarrow> cef_value option \<times> string"
  GetResourceDir :: "string option"

text \<open>
  The ways a call can end other than by returning: a C++ exception that nothing in this
  file catches (\<^verbatim>\<open>std::out_of_range\<close> from \<^verbatim>\<open>std::string::substr\<close>), and a failed
  \<^verbatim>\<open>DCHECK\<close>, which is fatal.
\<close>

datatype failure = Out_of_range | DCHECK_failed

section \<open>The operations of \<^verbatim>\<open>std::string\<close> that the code uses\<close>

text \<open>
  \<^verbatim>\<open>hay.find(needle)\<close>: the position of the first occurrence of \<open>needle\<close> in \<open>hay\<close>,
  \<open>None\<close> for \<^verbatim>\<open>npos\<close>.
\<close>

fun find_str :: "string \<Rightarrow> string \<Rightarrow> nat option" where
  "find_str [] needle = (if needle = [] then Some 0 else None)"
| "find_str (c # cs) needle =
     (if prefix needle (c # cs) then Some 0 else map_option Suc (find_str cs needle))"

text \<open>\<^verbatim>\<open>s.substr(pos)\<close> throws \<^verbatim>\<open>std::out_of_range\<close> when \<open>pos\<close> is beyond the end.\<close>

definition substr :: "string \<Rightarrow> nat \<Rightarrow> failure + string" where
  "substr s pos = (if pos \<le> length s then Inr (drop pos s) else Inl Out_of_range)"

text \<open>\<^verbatim>\<open>std::replace(s.begin(), s.end(), old, new)\<close>.\<close>

definition replace_char :: "char \<Rightarrow> char \<Rightarrow> string \<Rightarrow> string" where
  "replace_char old new s = map (\<lambda>c. if c = old then new else c) s"

section \<open>Path resolver\<close>

definition GetResourcesPath :: "env \<Rightarrow> string" where
  "GetResourcesPath e =
     (case resources_dir e of
        Some dir \<Rightarrow> if dir \<noteq> [] then dir @ [kPathSep e] else []
      | None \<Rightarrow> [])"

definition GetInternalPath :: "env \<Rightarrow> string \<Rightarrow> failure + string" where
  "GetInternalPath e extension_path =
     (let resources_path = GetResourcesPath e in
      case (if resources_path \<noteq> [] \<and> find_str extension_path resources_path = Some 0
            then substr extension_path (length resources_path)
            else Inr extension_path) of
        Inl err \<Rightarrow> Inl err
      | Inr internal_path \<Rightarrow>
          Inr (if platform e = OS_WIN
               then replace_char (CHR 0x5C) (CHR ''/'') internal_path
               else internal_path))"

text \<open>The table \<^verbatim>\<open>static const char* extensions[]\<close> of \<^verbatim>\<open>IsInternalExtension\<close>.\<close>

definition extensions :: "string list" where
  "extensions = [''set_page_color'']"

text \<open>The \<^verbatim>\<open>for\<close> loop of \<^verbatim>\<open>IsInternalExtension\<close> over the table.\<close>

fun IsInternalExtension_loop :: "string \<Rightarrow> string list \<Rightarrow> bool" where
  "IsInternalExtension_loop internal_path [] = False"
| "IsInternalExtension_loop internal_path (extension # rest) =
     (if internal_path = extension \<or>
         find_str internal_path (extension @ [CHR ''/'']) = Some 0
      then True
      else IsInternalExtension_loop internal_path rest)"

definition IsInternalExtension :: "env \<Rightarrow> string \<Rightarrow> failure + bool" where
  "IsInternalExtension e extension_path =
     (case GetInternalPath e extension_path of
        Inl err \<Rightarrow> Inl err
      | Inr internal_path \<Rightarrow> Inr (IsInternalExtension_loop internal_path extensions))"

definition GetInternalExtensionResourcePath :: "env \<Rightarrow> string \<Rightarrow> failure + string" where
  "GetInternalExtensionResourcePath e extension_path =
     (case GetInternalPath e extension_path of
        Inl err \<Rightarrow> Inl err
      | Inr internal_path \<Rightarrow> Inr (''extensions/'' @ internal_path))"

text \<open>
  \<^verbatim>\<open>GetExtensionResourcePath(path, bool* internal)\<close>. The out-parameter is \<open>None\<close> for a
  null pointer and \<open>Some b\<close> for a pointer to a \<^verbatim>\<open>bool\<close> holding \<open>b\<close>; the result pairs the
  returned string with the pointee after the call.
\<close>

definition GetExtensionResourcePath ::
  "env \<Rightarrow> string \<Rightarrow> bool option \<Rightarrow> failure + (string \<times> bool option)" where
  "GetExtensionResourcePath e extension_path internal =
     (case IsInternalExtension e extension_path of
        Inl err \<Rightarrow> Inl err
      | Inr is_internal \<Rightarrow>
          (let internal' = (case internal of None \<Rightarrow> None | Some _ \<Rightarrow> Some is_internal) in
           if is_internal
           then (case GetInternalExtensionResourcePath e extension_path of
                   Inl err \<Rightarrow> Inl err
                 | Inr p \<Rightarrow> Inr (p, internal'))
           else Inr (extension_path, internal')))"

section \<open>The path resolver as the specification words it\<close>

text \<open>
  The bundled-resources prefix is stripped when the path starts with it, then every
  backslash becomes a forward slash; a path is internal when the result is an allowlisted
  name or begins with such a name followed by a slash.
\<close>

definition spec_strip_prefix :: "env \<Rightarrow> string \<Rightarrow> string" where
  "spec_strip_prefix e path =
     (if prefix (GetResourcesPath e) path then drop (length (GetResourcesPath e)) path
      else path)"

definition spec_normalize :: "string \<Rightarrow> string" where
  "spec_normalize s = map (\<lambda>c. if c = CHR 0x5C then CHR ''/'' else c) s"

definition spec_allowlist :: "string set" where
  "spec_allowlist = {''set_page_color''}"

definition spec_matches :: "string \<Rightarrow> bool" where
  "spec_matches rel = (\<exists>n \<in> spec_allowlist. rel = n \<or> prefix (n @ ''/'') rel)"

text \<open>The relative path on a given build: normalised on Windows builds only.\<close>

definition build_relative_path :: "env \<Rightarrow> string \<Rightarrow> string" where
  "build_relative_path e path =
     (if platform e = OS_WIN then spec_normalize (spec_strip_prefix e path)
      else spec_strip_prefix e path)"

definition first_segment :: "string \<Rightarrow> string" where
  "first_segment s = takeWhile (\<lambda>c. c \<noteq> CHR ''/'') s"

section \<open>Concrete environments\<close>

definition posix_env :: env where
  "posix_env =
     \<lparr> platform = OS_POSIX, dcheck_is_on = True, kPathSep = CHR ''/'',
       resources_dir = Some ''/res'',
       JoinPath = (\<lambda>a b. a @ ''/'' @ b),
       LoadBinaryResource = (\<lambda>_. None),
       CefParseJSONAndReturnError = (\<lambda>_. (None, ''parse error'')),
       GetResourceDir = Some ''/opt/app/files'' \<rparr>"

definition win_env :: env where
  "win_env =
     \<lparr> platform = OS_WIN, dcheck_is_on = True, kPathSep = CHR 0x5C,
       resources_dir = Some ''C:'',
       JoinPath = (\<lambda>a b. a @ [CHR 0x5C] @ b),
       LoadBinaryResource = (\<lambda>_. None),
       CefParseJSONAndReturnError = (\<lambda>_. (None, ''parse error'')),
       GetResourceDir = None \<rparr>"

text \<open>The environment of \<open>posix_env\<close> when \<^verbatim>\<open>CefGetPath\<close> fails.\<close>

definition no_resources_env :: env where
  "no_resources_env = posix_env \<lparr> resources_dir := None \<rparr>"

text \<open>
  The classification with the separators normalised on every build, and a path of one
  allowlisted name, a backslash and a file name.
\<close>

definition spec_IsInternal :: "env \<Rightarrow> string \<Rightarrow> bool" where
  "spec_IsInternal e path = spec_matches (spec_normalize (spec_strip_prefix e path))"

definition backslash_path :: string where
  "backslash_path = ''set_page_color'' @ [CHR 0x5C] @ ''popup.html''"

text \<open>Paths for the concrete environments.\<close>

definition other_path :: string where
  "other_path = ''/res/other/popup.html''"

definition win_popup_path :: string where
  "win_popup_path = ''C:'' @ [CHR 0x5C] @ ''set_page_color'' @ [CHR 0x5C] @ ''popup.html''"

definition backslash_icon :: string where
  "backslash_icon = ''icons'' @ [CHR 0x5C] @ ''icon.png''"

text \<open>The internal resource path with the separators normalised on every build.\<close>

definition spec_InternalResourcePath :: "env \<Rightarrow> string \<Rightarrow> string" where
  "spec_InternalResourcePath e path =
     ''extensions/'' @ spec_normalize (spec_strip_prefix e path)"

text \<open>
  Dropping the leading \<open>extensions/\<close> of an internal resource path, and a path that
  carries the resources prefix of \<open>posix_env\<close> twice.
\<close>

definition strip_extensions :: "string \<Rightarrow> string" where
  "strip_extensions s = drop (length ''extensions/'') s"

definition doubled_prefix_path :: string where
  "doubled_prefix_path = ''/res//res/set_page_color''"

section \<open>Extensions and their manifests\<close>

text \<open>
  Modelled from the spec: the accessors \<^verbatim>\<open>CefDictionaryValue::GetDictionary\<close> and
  \<^verbatim>\<open>CefDictionaryValue::GetString\<close> are the host engine's and are not part of the
  sources. A key that is absent, or whose value has another type, gives a null dictionary
  (\<open>None\<close>), respectively the empty string: absence is valid and yields an empty result.
\<close>

definition GetDictionary :: "cef_dictionary \<Rightarrow> string \<Rightarrow> cef_dictionary option" where
  "GetDictionary d key =
     (case map_of d key of Some (VTYPE_DICTIONARY d') \<Rightarrow> Some d' | _ \<Rightarrow> None)"

definition GetString :: "cef_dictionary \<Rightarrow> string \<Rightarrow> string" where
  "GetString d key = (case map_of d key of Some (VTYPE_STRING s) \<Rightarrow> s | _ \<Rightarrow> [])"

text \<open>
  A loaded \<^verbatim>\<open>CefExtension\<close>: what its three getters return. The manifest of a loaded
  extension is a dictionary, never a null pointer.
\<close>

record cef_extension =
  GetIdentifier :: string
  GetPath :: string
  GetManifest :: cef_dictionary

definition GetExtensionOrigin :: "string \<Rightarrow> string" where
  "GetExtensionOrigin extension_id = ''chrome-extension://'' @ extension_id @ ''/''"

definition GetExtensionURL :: "cef_extension \<Rightarrow> string" where
  "GetExtensionURL extension =
     (case GetDictionary (GetManifest extension) ''browser_action'' of
        Some browser_action \<Rightarrow>
          (let default_popup = GetString browser_action ''default_popup'' in
           if default_popup \<noteq> []
           then GetExtensionOrigin (GetIdentifier extension) @ default_popup
           else [])
      | None \<Rightarrow> [])"

definition GetExtensionIconPath ::
  "env \<Rightarrow> cef_extension \<Rightarrow> bool option \<Rightarrow> failure + (string \<times> bool option)" where
  "GetExtensionIconPath e extension internal =
     (case GetDictionary (GetManifest extension) ''browser_action'' of
        Some browser_action \<Rightarrow>
          (let default_icon = GetString browser_action ''default_icon'' in
           if default_icon \<noteq> []
           then GetExtensionResourcePath e (JoinPath e (GetPath extension) default_icon) internal
           else Inr ([], internal))
      | None \<Rightarrow> Inr ([], internal))"

text \<open>The manifest \<^verbatim>\<open>{"browser_action":{"default_popup":"popup.html"}}\<close>.\<close>

definition popup_manifest :: cef_dictionary where
  "popup_manifest =
     [(''browser_action'', VTYPE_DICTIONARY [(''default_popup'', VTYPE_STRING ''popup.html'')])]"

text \<open>
  A manifest whose \<open>browser_action\<close> has an icon and no popup, and one whose
  \<open>browser_action\<close> is not a dictionary.
\<close>

definition icon_manifest :: cef_dictionary where
  "icon_manifest =
     [(''browser_action'', VTYPE_DICTIONARY [(''default_icon'', VTYPE_STRING ''icon.png'')])]"

definition string_action_manifest :: cef_dictionary where
  "string_action_manifest = [(''browser_action'', VTYPE_STRING ''popup.html'')]"

section \<open>Execution contexts and posted tasks\<close>

text \<open>
  The threads the code asks about, and \<open>TID_OTHER\<close> for any other thread a call may come
  from; the code posts nothing there.
\<close>

datatype thread_id = TID_UI | TID_FILE | TID_IO | TID_OTHER

text \<open>
  Reference-counted handles of the engine (request context, extension handler, resource
  manager) are opaque to this code: they are only passed on.
\<close>

type_synonym request_context = nat
type_synonym extension_handler = nat
type_synonym resource_manager = nat

text \<open>
  The closures that \<^verbatim>\<open>base::Bind\<close> builds in this file, one constructor per bound
  function. The only \<^verbatim>\<open>ManifestCallback\<close> ever built is the one \<^verbatim>\<open>LoadExtension\<close> binds.
\<close>

datatype manifest_callback =
  Bind_LoadExtensionWithManifest request_context string extension_handler

datatype task =
    Bind_RunManifestCallback manifest_callback "cef_dictionary option"
  | Bind_GetInternalManifest string manifest_callback
  | Bind_LoadExtension request_context string extension_handler
  | Bind_AddInternalExtensionToResourceManager cef_extension resource_manager

datatype provider =
    BinaryResourceProvider string string
  | DirectoryProvider string string

text \<open>
  What the code does to the world outside it, in the order it happens, each with the
  thread it happened on: a line logged with \<^verbatim>\<open>LOG(ERROR)\<close>, a call of
  \<^verbatim>\<open>LoadBinaryResource\<close>, a run of a manifest callback, a call of the request context's
  \<^verbatim>\<open>LoadExtension\<close>, a provider added to a resource manager with its priority and
  identifier.
\<close>

datatype event =
    LOG_ERROR string
  | Called_LoadBinaryResource thread_id string
  | Callback_Run thread_id manifest_callback "cef_dictionary option"
  | RequestContext_LoadExtension thread_id request_context string "cef_dictionary option"
      extension_handler
  | AddProvider thread_id resource_manager provider nat string

record world =
  queues :: "thread_id \<Rightarrow> task list"
  trace :: "event list"

definition idle :: world where
  "idle = \<lparr> queues = (\<lambda>_. []), trace = [] \<rparr>"

definition emit :: "event \<Rightarrow> world \<Rightarrow> world" where
  "emit ev w = w\<lparr> trace := trace w @ [ev] \<rparr>"

text \<open>
  Modelled from the spec: \<^verbatim>\<open>CefCurrentlyOn\<close> and \<^verbatim>\<open>CefPostTask\<close> are the host engine's and
  are not part of the sources. Section 4.2: each context has a queue of tasks; a task
  posted to a context is enqueued for later execution on that context, in submission
  order, and no task is ever dropped. \<^verbatim>\<open>CefCurrentlyOn(t)\<close> holds when the calling thread
  is \<open>t\<close>; the calling thread is the argument \<open>cur\<close> of every function below.
\<close>

definition CefPostTask :: "thread_id \<Rightarrow> task \<Rightarrow> world \<Rightarrow> world" where
  "CefPostTask tid t w = w\<lparr> queues := (queues w)(tid := queues w tid @ [t]) \<rparr>"

definition CefCurrentlyOn :: "thread_id \<Rightarrow> thread_id \<Rightarrow> bool" where
  "CefCurrentlyOn cur tid = (cur = tid)"

text \<open>
  \<^verbatim>\<open>DCHECK(condition)\<close> of \<^verbatim>\<open>cef_logging.h\<close>: fatal when the condition is false and the
  macro is compiled in; otherwise nothing happens and the condition is not looked at.
\<close>

definition DCHECK_passes :: "env \<Rightarrow> bool \<Rightarrow> bool" where
  "DCHECK_passes e condition = (if dcheck_is_on e then condition else True)"

section \<open>Manifest loader\<close>

definition LoadExtensionWithManifest ::
  "env \<Rightarrow> thread_id \<Rightarrow> request_context \<Rightarrow> string \<Rightarrow> extension_handler
     \<Rightarrow> cef_dictionary option \<Rightarrow> world \<Rightarrow> failure + world" where
  "LoadExtensionWithManifest e cur request_context extension_path handler manifest w =
     (if \<not> DCHECK_passes e (CefCurrentlyOn cur TID_UI) then Inl DCHECK_failed
      else Inr (emit (RequestContext_LoadExtension cur request_context extension_path
                        manifest handler) w))"

text \<open>\<^verbatim>\<open>callback.Run(manifest)\<close>: the run is recorded, then the bound function runs.\<close>

fun Run ::
  "env \<Rightarrow> thread_id \<Rightarrow> manifest_callback \<Rightarrow> cef_dictionary option \<Rightarrow> world
     \<Rightarrow> failure + world" where
  "Run e cur (Bind_LoadExtensionWithManifest request_context extension_path handler) manifest w =
     LoadExtensionWithManifest e cur request_context extension_path handler manifest
       (emit (Callback_Run cur
                (Bind_LoadExtensionWithManifest request_context extension_path handler)
                manifest) w)"

definition RunManifestCallback ::
  "env \<Rightarrow> thread_id \<Rightarrow> manifest_callback \<Rightarrow> cef_dictionary option \<Rightarrow> world
     \<Rightarrow> failure + world" where
  "RunManifestCallback e cur callback manifest w =
     (if \<not> CefCurrentlyOn cur TID_UI
      then Inr (CefPostTask TID_UI (Bind_RunManifestCallback callback manifest) w)
      else Run e cur callback manifest w)"

definition GetInternalManifest ::
  "env \<Rightarrow> thread_id \<Rightarrow> string \<Rightarrow> manifest_callback \<Rightarrow> world \<Rightarrow> failure + world" where
  "GetInternalManifest e cur extension_path callback w =
     (if \<not> CefCurrentlyOn cur TID_FILE
      then Inr (CefPostTask TID_FILE (Bind_GetInternalManifest extension_path callback) w)
      else
        case GetInternalExtensionResourcePath e
               (JoinPath e extension_path ''manifest.json'') of
          Inl err \<Rightarrow> Inl err
        | Inr manifest_path \<Rightarrow>
            (let w1 = emit (Called_LoadBinaryResource cur manifest_path) w in
             case LoadBinaryResource e manifest_path of
               None \<Rightarrow>
                 RunManifestCallback e cur callback None
                   (emit (LOG_ERROR (''Failed to load manifest from '' @ manifest_path)) w1)
             | Some manifest_contents \<Rightarrow>
                 if manifest_contents = []
                 then RunManifestCallback e cur callback None
                        (emit (LOG_ERROR (''Failed to load manifest from '' @ manifest_path)) w1)
                 else
                   (case CefParseJSONAndReturnError e manifest_contents of
                      (Some (VTYPE_DICTIONARY d), error_msg) \<Rightarrow>
                        RunManifestCallback e cur callback (Some d) w1
                    | (_, error_msg) \<Rightarrow>
                        RunManifestCallback e cur callback None
                          (emit (LOG_ERROR
                             (''Failed to parse manifest from '' @ manifest_path @ ''; '' @
                              (if error_msg = []
                               then ''Incorrectly formatted dictionary contents.''
                               else error_msg))) w1))))"

section \<open>Loading an extension and registering its resources\<close>

definition LoadExtension ::
  "env \<Rightarrow> thread_id \<Rightarrow> request_context \<Rightarrow> string \<Rightarrow> extension_handler \<Rightarrow> world
     \<Rightarrow> failure + world" where
  "LoadExtension e cur request_context extension_path handler w =
     (if \<not> CefCurrentlyOn cur TID_UI
      then Inr (CefPostTask TID_UI
                  (Bind_LoadExtension request_context extension_path handler) w)
      else
        case IsInternalExtension e extension_path of
          Inl err \<Rightarrow> Inl err
        | Inr is_internal \<Rightarrow>
            if is_internal
            then GetInternalManifest e cur extension_path
                   (Bind_LoadExtensionWithManifest request_context extension_path handler) w
            else Inr (emit (RequestContext_LoadExtension cur request_context extension_path
                              None handler) w))"

definition AddInternalExtensionToResourceManager ::
  "env \<Rightarrow> thread_id \<Rightarrow> cef_extension \<Rightarrow> resource_manager \<Rightarrow> world \<Rightarrow> failure + world" where
  "AddInternalExtensionToResourceManager e cur extension resource_manager w =
     (case (if dcheck_is_on e then IsInternalExtension e (GetPath extension) else Inr True) of
        Inl err \<Rightarrow> Inl err
      | Inr checked \<Rightarrow>
          if \<not> DCHECK_passes e checked then Inl DCHECK_failed
          else if \<not> CefCurrentlyOn cur TID_IO
          then Inr (CefPostTask TID_IO
                      (Bind_AddInternalExtensionToResourceManager extension resource_manager) w)
          else
            (let origin = GetExtensionOrigin (GetIdentifier extension) in
             case GetInternalExtensionResourcePath e (GetPath extension) of
               Inl err \<Rightarrow> Inl err
             | Inr resource_path \<Rightarrow>
                 (case platform e of
                    OS_WIN \<Rightarrow>
                      Inr (emit (AddProvider cur resource_manager
                                   (BinaryResourceProvider origin resource_path) 50 []) w)
                  | OS_POSIX \<Rightarrow>
                      (case GetResourceDir e of
                         Some resource_dir \<Rightarrow>
                           Inr (emit (AddProvider cur resource_manager
                                        (DirectoryProvider origin
                                           (resource_dir @ ''/'' @ resource_path)) 50 []) w)
                       | None \<Rightarrow> Inr w))))"

section \<open>Running the posted tasks\<close>

text \<open>A thread runs a task by calling the bound function with the bound arguments.\<close>

fun run_task :: "env \<Rightarrow> thread_id \<Rightarrow> task \<Rightarrow> world \<Rightarrow> failure + world" where
  "run_task e cur (Bind_RunManifestCallback callback manifest) w =
     RunManifestCallback e cur callback manifest w"
| "run_task e cur (Bind_GetInternalManifest extension_path callback) w =
     GetInternalManifest e cur extension_path callback w"
| "run_task e cur (Bind_LoadExtension request_context extension_path handler) w =
     LoadExtension e cur request_context extension_path handler w"
| "run_task e cur (Bind_AddInternalExtensionToResourceManager extension resource_manager) w =
     AddInternalExtensionToResourceManager e cur extension resource_manager w"

text \<open>
  One turn of thread \<open>tid\<close>: it takes the oldest task of its queue and runs it; with an
  empty queue nothing happens.
\<close>

definition step :: "env \<Rightarrow> thread_id \<Rightarrow> world \<Rightarrow> failure + world" where
  "step e tid w =
     (case queues w tid of
        [] \<Rightarrow> Inr w
      | t # rest \<Rightarrow> run_task e tid t (w\<lparr> queues := (queues w)(tid := rest) \<rparr>))"

text \<open>
  A schedule is the list of the threads that take a turn, in order. Every interleaving
  of the threads' message loops is some schedule; a fatal failure ends the run.
\<close>

fun run :: "env \<Rightarrow> thread_id list \<Rightarrow> world \<Rightarrow> failure + world" where
  "run e [] w = Inr w"
| "run e (tid # sched) w =
     (case step e tid w of Inl err \<Rightarrow> Inl err | Inr w' \<Rightarrow> run e sched w')"

text \<open>The manifest callbacks run so far, with the thread of each run.\<close>

fun deliveries :: "event list \<Rightarrow> (thread_id \<times> manifest_callback \<times> cef_dictionary option) list" where
  "deliveries [] = []"
| "deliveries (Callback_Run t callback manifest # evs) = (t, callback, manifest) # deliveries evs"
| "deliveries (_ # evs) = deliveries evs"

text \<open>The lines logged so far.\<close>

fun logged :: "event list \<Rightarrow> string list" where
  "logged [] = []"
| "logged (LOG_ERROR msg # evs) = msg # logged evs"
| "logged (_ # evs) = logged evs"

text \<open>The names passed to \<^verbatim>\<open>LoadBinaryResource\<close> so far.\<close>

fun manifest_reads :: "event list \<Rightarrow> string list" where
  "manifest_reads [] = []"
| "manifest_reads (Called_LoadBinaryResource t name # evs) = name # manifest_reads evs"
| "manifest_reads (_ # evs) = manifest_reads evs"

section \<open>Worlds and values named in the statements\<close>

text \<open>The value of the local \<^verbatim>\<open>manifest_path\<close> of \<^verbatim>\<open>GetInternalManifest\<close>.\<close>

definition manifest_path_of :: "env \<Rightarrow> string \<Rightarrow> string" where
  "manifest_path_of e extension_path =
     ''extensions/'' @ build_relative_path e (JoinPath e extension_path ''manifest.json'')"

text \<open>The engine call that a run of the bound \<^verbatim>\<open>LoadExtensionWithManifest\<close> makes on the UI thread.\<close>

fun bound_call :: "manifest_callback \<Rightarrow> cef_dictionary option \<Rightarrow> event" where
  "bound_call (Bind_LoadExtensionWithManifest request_context extension_path handler) manifest =
     RequestContext_LoadExtension TID_UI request_context extension_path manifest handler"

text \<open>A world with no task queued, and one whose only task waits on the UI thread.\<close>

definition quiet :: "event list \<Rightarrow> world" where
  "quiet t = \<lparr> queues = (\<lambda>_. []), trace = t \<rparr>"

definition one_UI_task :: "task \<Rightarrow> event list \<Rightarrow> world" where
  "one_UI_task t tr = \<lparr> queues = (\<lambda>_. [])(TID_UI := [t]), trace = tr \<rparr>"

text \<open>
  Two more environments over \<open>posix_env\<close>: one that bundles the manifest of
  \<open>set_page_color\<close> and parses it to \<open>popup_manifest\<close>, and one whose manifest is cut
  short and does not parse. A string in double quotes, as JSON writes it.
\<close>

definition quoted :: "string \<Rightarrow> string" where
  "quoted s = [CHR 0x22] @ s @ [CHR 0x22]"

definition popup_manifest_json :: string where
  "popup_manifest_json =
     ''{'' @ quoted ''browser_action'' @ '':{'' @ quoted ''default_popup'' @ '':'' @
     quoted ''popup.html'' @ ''}}''"

definition truncated_json :: string where
  "truncated_json = ''{'' @ quoted ''browser_action'' @ '':''"

definition bundled_env :: env where
  "bundled_env = posix_env
     \<lparr> LoadBinaryResource :=
         (\<lambda>name. if name = ''extensions/set_page_color/manifest.json''
                  then Some popup_manifest_json else None),
       CefParseJSONAndReturnError := (\<lambda>_. (Some (VTYPE_DICTIONARY popup_manifest), [])) \<rparr>"

definition garbled_env :: env where
  "garbled_env = posix_env
     \<lparr> LoadBinaryResource := (\<lambda>_. Some truncated_json),
       CefParseJSONAndReturnError := (\<lambda>_. (None, ''Unexpected token.'')) \<rparr>"

definition callback0 :: manifest_callback where
  "callback0 = Bind_LoadExtensionWithManifest 0 ''set_page_color'' 0"

section \<open>The manifest pipeline's invariant\<close>

text \<open>
  The tasks of the manifest pipeline, the traces in which every callback ran on the UI
  thread, and the worlds that queue only pipeline tasks and have such a trace.
\<close>

fun pipeline_task :: "task \<Rightarrow> bool" where
  "pipeline_task (Bind_AddInternalExtensionToResourceManager extension resource_manager) = False"
| "pipeline_task _ = True"

definition callbacks_on_UI :: "event list \<Rightarrow> bool" where
  "callbacks_on_UI tr = list_all (\<lambda>(t, callback, manifest). t = TID_UI) (deliveries tr)"

definition pipeline_world :: "world \<Rightarrow> bool" where
  "pipeline_world w =
     ((\<forall>tid. list_all pipeline_task (queues w tid)) \<and> callbacks_on_UI (trace w))"

text \<open>
  A release build of \<open>win_env\<close>, an extension outside the allowlist and one inside it.
\<close>

definition release_env :: env where
  "release_env = win_env \<lparr> dcheck_is_on := False \<rparr>"

definition external_extension :: cef_extension where
  "external_extension = \<lparr> GetIdentifier = ''abc123'', GetPath = ''other'', GetManifest = [] \<rparr>"

definition internal_extension :: cef_extension where
  "internal_extension =
     \<lparr> GetIdentifier = ''abc123'', GetPath = ''set_page_color'', GetManifest = popup_manifest \<rparr>"

section \<open>Malformed paths\<close>

text \<open>
  The segments of a path between its slashes. The code has no notion of a malformed
  path; a path is taken as malformed when it holds a NUL byte, a segment \<open>..\<close> or two
  slashes in a row.
\<close>

fun segments_from :: "string \<Rightarrow> string \<Rightarrow> string list" where
  "segments_from seg [] = [rev seg]"
| "segments_from seg (c # cs) =
     (if c = CHR ''/'' then rev seg # segments_from [] cs else segments_from (c # seg) cs)"

definition split_path :: "string \<Rightarrow> string list" where
  "split_path path = segments_from [] path"

fun doubled_slash :: "string \<Rightarrow> bool" where
  "doubled_slash (a # b # cs) = ((a = CHR ''/'' \<and> b = CHR ''/'') \<or> doubled_slash (b # cs))"
| "doubled_slash _ = False"

definition spec_malformed :: "string \<Rightarrow> bool" where
  "spec_malformed path =
     (CHR 0x00 \<in> set path \<or> ''..'' \<in> set (split_path path) \<or> doubled_slash path)"

text \<open>Malformed paths: three under an allowlisted name, one under another name.\<close>

definition traversal_path :: string where
  "traversal_path = ''set_page_color/../../etc/passwd''"

definition slashes_path :: string where
  "slashes_path = ''set_page_color////''"

definition nul_path :: string where
  "nul_path = ''set_page_color/'' @ [CHR 0x00]"

definition malformed_other_path :: string where
  "malformed_other_path = ''../other//popup.html''"

section \<open>Facts about the string operations\<close>

lemma find_str_prefix: "find_str hay needle = Some 0 \<longleftrightarrow> prefix needle hay"
  by (cases hay) auto

lemma GetInternalPath_eq:
  "GetInternalPath e p = Inr (build_relative_path e p)"
proof (cases "GetResourcesPath e \<noteq> [] \<and> prefix (GetResourcesPath e) p")
  case True
  then have "length (GetResourcesPath e) \<le> length p"
    by (simp add: prefix_length_le)
  with True show ?thesis
    by (simp add: GetInternalPath_def build_relative_path_def spec_strip_prefix_def
        spec_normalize_def replace_char_def substr_def find_str_prefix Let_def)
next
  case False
  then have "spec_strip_prefix e p = p"
    by (auto simp: spec_strip_prefix_def)
  with False show ?thesis
    by (auto simp: GetInternalPath_def build_relative_path_def
        spec_normalize_def replace_char_def find_str_prefix Let_def)
qed

lemma IsInternalExtension_loop_eq:
  "IsInternalExtension_loop rel extensions = spec_matches rel"
  by (simp add: extensions_def spec_matches_def spec_allowlist_def find_str_prefix)

lemma IsInternalExtension_eq:
  "IsInternalExtension e p = Inr (spec_matches (build_relative_path e p))"
  by (simp add: IsInternalExtension_def GetInternalPath_eq IsInternalExtension_loop_eq)

section \<open>Facts about the specification's words\<close>

lemma spec_matches_first_segment:
  "spec_matches rel \<Longrightarrow> first_segment rel \<in> spec_allowlist"
  by (auto simp: spec_matches_def spec_allowlist_def first_segment_def elim!: prefixE)

lemma spec_normalize_allowlisted:
  "n \<in> spec_allowlist \<Longrightarrow> spec_normalize (n @ ''/'' @ s) = n @ ''/'' @ spec_normalize s"
  by (simp add: spec_allowlist_def spec_normalize_def)

lemma spec_normalize_allowlisted_exact:
  "n \<in> spec_allowlist \<Longrightarrow> spec_normalize n = n"
  by (simp add: spec_allowlist_def spec_normalize_def)

lemma spec_strip_prefix_root: "spec_strip_prefix e (GetResourcesPath e @ x) = x"
  by (simp add: spec_strip_prefix_def)

lemma spec_matches_allowlisted:
  "n \<in> spec_allowlist \<Longrightarrow> spec_matches (n @ ''/'' @ s)"
  "n \<in> spec_allowlist \<Longrightarrow> spec_matches n"
  unfolding spec_matches_def by (rule bexI[of _ n]; simp)+

lemma build_relative_path_allowlisted:
  assumes "n \<in> spec_allowlist"
  shows "spec_matches (build_relative_path e (GetResourcesPath e @ n @ ''/'' @ s))"
    and "spec_matches (build_relative_path e (GetResourcesPath e @ n))"
  using assms
  by (simp_all add: build_relative_path_def spec_strip_prefix_root spec_normalize_allowlisted
      spec_normalize_allowlisted_exact spec_matches_allowlisted del: append.simps)

section \<open>Applying the resolver to its own result\<close>

lemma spec_normalize_idem: "spec_normalize (spec_normalize s) = spec_normalize s"
  by (simp add: spec_normalize_def)

lemma spec_normalize_no_backslash: "CHR 0x5C \<notin> set (spec_normalize s)"
  by (auto simp: spec_normalize_def)

lemma build_relative_path_fixed:
  assumes "\<not> (GetResourcesPath e \<noteq> [] \<and> prefix (GetResourcesPath e) (build_relative_path e p))"
  shows "build_relative_path e (build_relative_path e p) = build_relative_path e p"
proof -
  define r where "r = build_relative_path e p"
  have strip: "spec_strip_prefix e r = r"
    using assms unfolding r_def by (auto simp: spec_strip_prefix_def)
  have "build_relative_path e r = r"
  proof (cases "platform e = OS_WIN")
    case True
    then have "r = spec_normalize (spec_strip_prefix e p)"
      by (simp add: r_def build_relative_path_def)
    then have "spec_normalize r = r"
      by (simp add: spec_normalize_idem)
    with True strip show ?thesis
      by (simp add: build_relative_path_def)
  next
    case False
    with strip show ?thesis
      by (simp add: build_relative_path_def)
  qed
  then show ?thesis by (simp add: r_def)
qed

lemma build_relative_path_shorter:
  assumes "GetResourcesPath e \<noteq> []" "prefix (GetResourcesPath e) r"
  shows "length (build_relative_path e r) < length r"
proof -
  from assms(2) obtain zs where r: "r = GetResourcesPath e @ zs"
    by (auto elim: prefixE)
  have "length (build_relative_path e r) = length zs"
    by (simp add: r build_relative_path_def spec_strip_prefix_def spec_normalize_def)
  with assms(1) show ?thesis
    by (simp add: r)
qed

lemma build_relative_path_idem_iff:
  "build_relative_path e (build_relative_path e p) = build_relative_path e p
   \<longleftrightarrow> \<not> (GetResourcesPath e \<noteq> [] \<and> prefix (GetResourcesPath e) (build_relative_path e p))"
  using build_relative_path_fixed[of e p]
    build_relative_path_shorter[of e "build_relative_path e p"]
  by (metis less_irrefl)

lemma win_prefix_never_remains:
  assumes "platform e = OS_WIN" "kPathSep e = CHR 0x5C"
  shows "\<not> (GetResourcesPath e \<noteq> [] \<and> prefix (GetResourcesPath e) (build_relative_path e p))"
proof
  assume a: "GetResourcesPath e \<noteq> [] \<and> prefix (GetResourcesPath e) (build_relative_path e p)"
  then have "CHR 0x5C \<in> set (GetResourcesPath e)"
    using assms(2) by (auto simp: GetResourcesPath_def split: option.splits if_splits)
  moreover have "set (GetResourcesPath e) \<subseteq> set (build_relative_path e p)"
    using a by (auto simp: prefix_def)
  moreover have "CHR 0x5C \<notin> set (build_relative_path e p)"
    using assms(1) by (simp add: build_relative_path_def spec_normalize_no_backslash)
  ultimately show False by blast
qed

section \<open>Evaluation in the concrete environments\<close>

lemma posix_root: "GetResourcesPath posix_env = ''/res/''"
  by (simp add: GetResourcesPath_def posix_env_def)

lemma win_root: "GetResourcesPath win_env = ''C:'' @ [CHR 0x5C]"
  by (simp add: GetResourcesPath_def win_env_def)

lemma platform_posix_env: "platform posix_env = OS_POSIX"
  by (simp add: posix_env_def)

lemma platform_win_env: "platform win_env = OS_WIN"
  by (simp add: win_env_def)

lemmas eval_path = build_relative_path_def spec_strip_prefix_def spec_normalize_def
  spec_matches_def spec_allowlist_def first_segment_def posix_root win_root
  platform_posix_env platform_win_env

lemma GetInternalExtensionResourcePath_eq:
  "GetInternalExtensionResourcePath e path = Inr (''extensions/'' @ build_relative_path e path)"
  by (simp add: GetInternalExtensionResourcePath_def GetInternalPath_eq)

lemma GetExtensionResourcePath_eq:
  "GetExtensionResourcePath e path internal =
     Inr (if spec_matches (build_relative_path e path)
          then ''extensions/'' @ build_relative_path e path else path,
          map_option (\<lambda>_. spec_matches (build_relative_path e path)) internal)"
  by (simp add: GetExtensionResourcePath_def IsInternalExtension_eq
      GetInternalExtensionResourcePath_eq Let_def split: option.splits)

section \<open>Facts about traces and runs\<close>

lemma deliveries_append: "deliveries (xs @ ys) = deliveries xs @ deliveries ys"
  by (induction xs rule: deliveries.induct) simp_all

lemma logged_append: "logged (xs @ ys) = logged xs @ logged ys"
  by (induction xs rule: logged.induct) simp_all

lemma Run_on_UI:
  "Run e TID_UI callback manifest w =
     Inr (emit (bound_call callback manifest) (emit (Callback_Run TID_UI callback manifest) w))"
  by (cases callback)
    (simp add: LoadExtensionWithManifest_def DCHECK_passes_def CefCurrentlyOn_def)

lemma empty_queues_upd: "(\<lambda>_. [])(tid := []) = (\<lambda>_. [])"
  by (simp add: fun_eq_iff)

lemma logged_bound_call: "logged (bound_call callback manifest # evs) = logged evs"
  by (cases callback) simp

lemma deliveries_bound_call: "deliveries (bound_call callback manifest # evs) = deliveries evs"
  by (cases callback) simp

lemma run_quiet: "run e sched (quiet t) = Inr (quiet t)"
  by (induction sched) (simp_all add: step_def quiet_def)

lemma step_one_UI_task_other:
  "tid \<noteq> TID_UI \<Longrightarrow> step e tid (one_UI_task t tr) = Inr (one_UI_task t tr)"
  by (simp add: step_def one_UI_task_def)

lemma step_one_UI_task_UI:
  "step e TID_UI (one_UI_task t tr) = run_task e TID_UI t (quiet tr)"
  by (simp add: step_def one_UI_task_def quiet_def empty_queues_upd)

lemma run_one_UI_task:
  assumes "run_task e TID_UI t (quiet tr) = Inr (quiet tr')"
  shows "run e sched (one_UI_task t tr) =
           Inr (if TID_UI \<in> set sched then quiet tr' else one_UI_task t tr)"
proof (induction sched)
  case Nil
  show ?case by simp
next
  case (Cons tid sched)
  show ?case
  proof (cases "tid = TID_UI")
    case True
    then show ?thesis
      by (simp add: step_one_UI_task_UI assms run_quiet)
  next
    case False
    then show ?thesis
      by (simp add: step_one_UI_task_other Cons.IH)
  qed
qed

lemma run_task_RunManifestCallback_UI:
  "run_task e TID_UI (Bind_RunManifestCallback callback manifest) (quiet tr) =
     Inr (quiet (tr @ [Callback_Run TID_UI callback manifest, bound_call callback manifest]))"
  by (simp add: RunManifestCallback_def CefCurrentlyOn_def Run_on_UI emit_def quiet_def)

lemma GetInternalExtensionResourcePath_manifest:
  "GetInternalExtensionResourcePath e (JoinPath e path ''manifest.json'')
     = Inr (manifest_path_of e path)"
  by (simp add: GetInternalExtensionResourcePath_eq manifest_path_of_def)

lemma RunManifestCallback_off_UI:
  "cur \<noteq> TID_UI \<Longrightarrow> RunManifestCallback e cur callback manifest w =
     Inr (CefPostTask TID_UI (Bind_RunManifestCallback callback manifest) w)"
  by (simp add: RunManifestCallback_def CefCurrentlyOn_def)

lemma post_UI_idle_trace:
  "CefPostTask TID_UI t (idle\<lparr> trace := tr \<rparr>) = one_UI_task t tr"
  by (simp add: CefPostTask_def idle_def one_UI_task_def)

lemma run_pending_delivery:
  "\<exists>w2. run e sched (CefPostTask TID_UI (Bind_RunManifestCallback callback manifest)
                         (idle\<lparr> trace := tr \<rparr>)) = Inr w2
     \<and> trace w2 = (if TID_UI \<in> set sched
                    then tr @ [Callback_Run TID_UI callback manifest, bound_call callback manifest]
                    else tr)
     \<and> queues w2 TID_UI =
           (if TID_UI \<in> set sched then [] else [Bind_RunManifestCallback callback manifest])"
  unfolding post_UI_idle_trace run_one_UI_task[OF run_task_RunManifestCallback_UI]
  by (simp add: quiet_def one_UI_task_def)

lemma GetInternalManifest_on_FILE:
  "GetInternalManifest e TID_FILE path callback w =
     (let w1 = emit (Called_LoadBinaryResource TID_FILE (manifest_path_of e path)) w in
      case LoadBinaryResource e (manifest_path_of e path) of
        None \<Rightarrow> RunManifestCallback e TID_FILE callback None
                  (emit (LOG_ERROR (''Failed to load manifest from '' @ manifest_path_of e path)) w1)
      | Some manifest_contents \<Rightarrow>
          if manifest_contents = []
          then RunManifestCallback e TID_FILE callback None
                 (emit (LOG_ERROR (''Failed to load manifest from '' @ manifest_path_of e path)) w1)
          else
            (case CefParseJSONAndReturnError e manifest_contents of
               (Some (VTYPE_DICTIONARY d), error_msg) \<Rightarrow>
                 RunManifestCallback e TID_FILE callback (Some d) w1
             | (_, error_msg) \<Rightarrow>
                 RunManifestCallback e TID_FILE callback None
                   (emit (LOG_ERROR
                      (''Failed to parse manifest from '' @ manifest_path_of e path @ ''; '' @
                       (if error_msg = []
                        then ''Incorrectly formatted dictionary contents.''
                        else error_msg))) w1)))"
  by (simp add: GetInternalManifest_def CefCurrentlyOn_def
      GetInternalExtensionResourcePath_manifest)

lemma RunManifestCallback_on_FILE:
  "RunManifestCallback e TID_FILE callback manifest w =
     Inr (CefPostTask TID_UI (Bind_RunManifestCallback callback manifest) w)"
  by (simp add: RunManifestCallback_off_UI)

section \<open>Evaluation of the manifest loader's environments\<close>

lemma popup_manifest_json_nonempty: "popup_manifest_json \<noteq> []"
  by (simp add: popup_manifest_json_def)

lemma truncated_json_nonempty: "truncated_json \<noteq> []"
  by (simp add: truncated_json_def)

lemma bundled_root: "GetResourcesPath bundled_env = ''/res/''"
  by (simp add: GetResourcesPath_def bundled_env_def posix_env_def)

lemma garbled_root: "GetResourcesPath garbled_env = ''/res/''"
  by (simp add: GetResourcesPath_def garbled_env_def posix_env_def)

lemma JoinPath_posix_env: "JoinPath posix_env a b = a @ ''/'' @ b"
  by (simp add: posix_env_def)

lemma JoinPath_bundled_env: "JoinPath bundled_env a b = a @ ''/'' @ b"
  by (simp add: bundled_env_def JoinPath_posix_env)

lemma JoinPath_garbled_env: "JoinPath garbled_env a b = a @ ''/'' @ b"
  by (simp add: garbled_env_def JoinPath_posix_env)

lemma platform_bundled_env: "platform bundled_env = OS_POSIX"
  by (simp add: bundled_env_def platform_posix_env)

lemma platform_garbled_env: "platform garbled_env = OS_POSIX"
  by (simp add: garbled_env_def platform_posix_env)

lemma manifest_path_posix:
  "manifest_path_of posix_env ''set_page_color'' = ''extensions/set_page_color/manifest.json''"
  by (simp add: manifest_path_of_def JoinPath_posix_env eval_path)

lemma manifest_path_bundled:
  "manifest_path_of bundled_env ''set_page_color'' = ''extensions/set_page_color/manifest.json''"
  by (simp add: manifest_path_of_def JoinPath_bundled_env build_relative_path_def
      spec_strip_prefix_def bundled_root platform_bundled_env)

lemma manifest_path_garbled:
  "manifest_path_of garbled_env ''set_page_color'' = ''extensions/set_page_color/manifest.json''"
  by (simp add: manifest_path_of_def JoinPath_garbled_env build_relative_path_def
      spec_strip_prefix_def garbled_root platform_garbled_env)

lemma LoadBinaryResource_bundled_env:
  "LoadBinaryResource bundled_env name =
     (if name = ''extensions/set_page_color/manifest.json'' then Some popup_manifest_json
      else None)"
  by (simp add: bundled_env_def)

lemma trace_idle: "trace idle = []"
  by (simp add: idle_def)

lemma CefParseJSONAndReturnError_bundled_env:
  "CefParseJSONAndReturnError bundled_env c = (Some (VTYPE_DICTIONARY popup_manifest), [])"
  by (simp add: bundled_env_def)

lemma LoadBinaryResource_garbled_env: "LoadBinaryResource garbled_env name = Some truncated_json"
  by (simp add: garbled_env_def)

lemma CefParseJSONAndReturnError_garbled_env:
  "CefParseJSONAndReturnError garbled_env c = (None, ''Unexpected token.'')"
  by (simp add: garbled_env_def)

lemma LoadBinaryResource_posix_env: "LoadBinaryResource posix_env name = None"
  by (simp add: posix_env_def)

section \<open>The invariant is kept by every task\<close>

lemma pipeline_world_post:
  "pipeline_world w \<Longrightarrow> pipeline_task t \<Longrightarrow> pipeline_world (CefPostTask tid t w)"
  by (simp add: pipeline_world_def CefPostTask_def)

lemma pipeline_world_emit:
  "pipeline_world w \<Longrightarrow> deliveries [ev] = [] \<Longrightarrow> pipeline_world (emit ev w)"
  by (simp add: pipeline_world_def emit_def callbacks_on_UI_def deliveries_append)

lemma pipeline_world_emit_Callback_Run:
  "pipeline_world w \<Longrightarrow> pipeline_world (emit (Callback_Run TID_UI callback manifest) w)"
  by (simp add: pipeline_world_def emit_def callbacks_on_UI_def deliveries_append)

lemma deliveries_single_bound_call: "deliveries [bound_call callback manifest] = []"
  by (simp add: deliveries_bound_call)

lemma RunManifestCallback_pipeline:
  assumes "pipeline_world w"
  shows "\<exists>w'. RunManifestCallback e cur callback manifest w = Inr w' \<and> pipeline_world w'"
proof (cases "cur = TID_UI")
  case True
  then show ?thesis
    using assms
    by (simp add: RunManifestCallback_def CefCurrentlyOn_def Run_on_UI
        pipeline_world_emit pipeline_world_emit_Callback_Run deliveries_single_bound_call)
next
  case False
  then show ?thesis
    using assms by (simp add: RunManifestCallback_off_UI pipeline_world_post)
qed

lemma GetInternalManifest_off_FILE:
  "cur \<noteq> TID_FILE \<Longrightarrow> GetInternalManifest e cur path callback w =
     Inr (CefPostTask TID_FILE (Bind_GetInternalManifest path callback) w)"
  by (simp add: GetInternalManifest_def CefCurrentlyOn_def)

lemma GetInternalManifest_on_FILE_posts:
  "\<exists>manifest evs. GetInternalManifest e TID_FILE path callback w =
       Inr (CefPostTask TID_UI (Bind_RunManifestCallback callback manifest)
             (w\<lparr> trace := trace w @ evs \<rparr>))
     \<and> deliveries evs = []"
proof (cases "LoadBinaryResource e (manifest_path_of e path)")
  case None
  show ?thesis
    apply (rule exI[of _ None])
    apply (rule exI[of _ "[Called_LoadBinaryResource TID_FILE (manifest_path_of e path),
       LOG_ERROR (''Failed to load manifest from '' @ manifest_path_of e path)]"])
    apply (simp add: GetInternalManifest_on_FILE RunManifestCallback_on_FILE emit_def
        CefPostTask_def Let_def None)
    done
next
  case (Some c)
  show ?thesis
  proof (cases "c = []")
    case True
    show ?thesis
      apply (rule exI[of _ None])
      apply (rule exI[of _ "[Called_LoadBinaryResource TID_FILE (manifest_path_of e path),
         LOG_ERROR (''Failed to load manifest from '' @ manifest_path_of e path)]"])
      apply (simp add: GetInternalManifest_on_FILE RunManifestCallback_on_FILE emit_def
          CefPostTask_def Let_def Some True)
      done
  next
    case False
    obtain v msg where parse: "CefParseJSONAndReturnError e c = (v, msg)"
      by (cases "CefParseJSONAndReturnError e c") auto
    show ?thesis
    proof (cases "\<exists>d. v = Some (VTYPE_DICTIONARY d)")
      case True
      then obtain d where v: "v = Some (VTYPE_DICTIONARY d)" by blast
      show ?thesis
        apply (rule exI[of _ "Some d"])
        apply (rule exI[of _ "[Called_LoadBinaryResource TID_FILE (manifest_path_of e path)]"])
        apply (simp add: GetInternalManifest_on_FILE RunManifestCallback_on_FILE emit_def
            CefPostTask_def Let_def Some False parse v)
        done
    next
      case nodict: False
      show ?thesis
        apply (rule exI[of _ None])
        apply (rule exI[of _ "[Called_LoadBinaryResource TID_FILE (manifest_path_of e path),
           LOG_ERROR (''Failed to parse manifest from '' @ manifest_path_of e path @ ''; '' @
             (if msg = [] then ''Incorrectly formatted dictionary contents.'' else msg))]"])
        apply (use nodict in \<open>simp add: GetInternalManifest_on_FILE RunManifestCallback_on_FILE
            emit_def CefPostTask_def Let_def Some False parse
            split: option.splits cef_value.splits\<close>)
        done
    qed
  qed
qed

lemma pipeline_world_trace_append:
  "pipeline_world w \<Longrightarrow> deliveries evs = [] \<Longrightarrow> pipeline_world (w\<lparr> trace := trace w @ evs \<rparr>)"
  by (simp add: pipeline_world_def callbacks_on_UI_def deliveries_append)

lemma trace_CefPostTask: "trace (CefPostTask tid t w) = trace w"
  by (simp add: CefPostTask_def)

lemma GetInternalManifest_pipeline:
  assumes "pipeline_world w"
  shows "\<exists>w'. GetInternalManifest e cur path callback w = Inr w' \<and> pipeline_world w'
            \<and> deliveries (trace w') = deliveries (trace w)"
proof (cases "cur = TID_FILE")
  case True
  from GetInternalManifest_on_FILE_posts[of e path callback w]
  obtain manifest evs where
    eq: "GetInternalManifest e TID_FILE path callback w =
       Inr (CefPostTask TID_UI (Bind_RunManifestCallback callback manifest)
             (w\<lparr> trace := trace w @ evs \<rparr>))"
    and evs: "deliveries evs = []"
    by blast
  have "pipeline_world (CefPostTask TID_UI (Bind_RunManifestCallback callback manifest)
             (w\<lparr> trace := trace w @ evs \<rparr>))"
    using assms evs by (simp add: pipeline_world_post pipeline_world_trace_append)
  then show ?thesis
    using True eq evs by (simp add: trace_CefPostTask deliveries_append)
next
  case False
  then show ?thesis
    using assms
    by (simp add: GetInternalManifest_off_FILE pipeline_world_post trace_CefPostTask)
qed

lemma LoadExtension_pipeline:
  assumes "pipeline_world w"
  shows "\<exists>w'. LoadExtension e cur request_context path handler w = Inr w' \<and> pipeline_world w'"
proof (cases "cur = TID_UI")
  case True
  show ?thesis
  proof (cases "spec_matches (build_relative_path e path)")
    case internal: True
    from GetInternalManifest_pipeline[OF assms, of e TID_UI path
        "Bind_LoadExtensionWithManifest request_context path handler"]
    show ?thesis
      using True internal
      by (auto simp: LoadExtension_def CefCurrentlyOn_def IsInternalExtension_eq)
  next
    case False
    then show ?thesis
      using True assms
      by (simp add: LoadExtension_def CefCurrentlyOn_def IsInternalExtension_eq
          pipeline_world_emit)
  qed
next
  case False
  then show ?thesis
    using assms by (simp add: LoadExtension_def CefCurrentlyOn_def pipeline_world_post)
qed

lemma run_task_pipeline:
  assumes "pipeline_world w" "pipeline_task t"
  shows "\<exists>w'. run_task e cur t w = Inr w' \<and> pipeline_world w'"
proof (cases t)
  case (Bind_RunManifestCallback callback manifest)
  then show ?thesis
    using RunManifestCallback_pipeline[OF assms(1)] by simp
next
  case (Bind_GetInternalManifest path callback)
  then show ?thesis
    using GetInternalManifest_pipeline[OF assms(1), of e cur path callback] by auto
next
  case (Bind_LoadExtension request_context path handler)
  then show ?thesis
    using LoadExtension_pipeline[OF assms(1)] by simp
next
  case (Bind_AddInternalExtensionToResourceManager extension resource_manager)
  then show ?thesis
    using assms(2) by simp
qed

lemma pipeline_world_pop:
  assumes "pipeline_world w" "queues w tid = t # rest"
  shows "pipeline_world (w\<lparr> queues := (queues w)(tid := rest) \<rparr>)" "pipeline_task t"
proof -
  from assms(1) have "list_all pipeline_task (queues w tid)"
    by (simp add: pipeline_world_def)
  with assms(2) show "pipeline_task t" and "pipeline_world (w\<lparr> queues := (queues w)(tid := rest) \<rparr>)"
    using assms(1) by (simp_all add: pipeline_world_def)
qed

lemma step_pipeline:
  assumes "pipeline_world w"
  shows "\<exists>w'. step e tid w = Inr w' \<and> pipeline_world w'"
proof (cases "queues w tid")
  case Nil
  then show ?thesis
    using assms by (simp add: step_def)
next
  case (Cons t rest)
  from pipeline_world_pop[OF assms Cons] run_task_pipeline
  show ?thesis
    by (simp add: step_def Cons)
qed

lemma run_pipeline:
  "pipeline_world w \<Longrightarrow> \<exists>w'. run e sched w = Inr w' \<and> pipeline_world w'"
proof (induction sched arbitrary: w)
  case Nil
  then show ?case by simp
next
  case (Cons tid sched)
  from step_pipeline[OF Cons.prems, of e tid]
  obtain w1 where s: "step e tid w = Inr w1" and p: "pipeline_world w1"
    by blast
  from Cons.IH[OF p] show ?case
    by (simp add: s)
qed

lemma pipeline_world_idle: "pipeline_world idle"
  by (simp add: pipeline_world_def idle_def callbacks_on_UI_def)

section \<open>Loading and registering, evaluated\<close>

lemma run_bundled_from_IO:
  "run bundled_env [TID_FILE, TID_UI]
     (CefPostTask TID_FILE (Bind_GetInternalManifest ''set_page_color'' callback0) idle) =
   Inr (quiet [Called_LoadBinaryResource TID_FILE ''extensions/set_page_color/manifest.json'',
               Callback_Run TID_UI callback0 (Some popup_manifest),
               bound_call callback0 (Some popup_manifest)])"
proof -
  have 1: "step bundled_env TID_FILE
     (CefPostTask TID_FILE (Bind_GetInternalManifest ''set_page_color'' callback0) idle) =
     Inr (one_UI_task (Bind_RunManifestCallback callback0 (Some popup_manifest))
            [Called_LoadBinaryResource TID_FILE ''extensions/set_page_color/manifest.json''])"
    by (simp add: step_def CefPostTask_def idle_def GetInternalManifest_on_FILE
        manifest_path_bundled LoadBinaryResource_bundled_env popup_manifest_json_nonempty
        CefParseJSONAndReturnError_bundled_env RunManifestCallback_on_FILE emit_def
        one_UI_task_def empty_queues_upd)
  have 2: "step bundled_env TID_UI
     (one_UI_task (Bind_RunManifestCallback callback0 (Some popup_manifest))
            [Called_LoadBinaryResource TID_FILE ''extensions/set_page_color/manifest.json'']) =
     Inr (quiet [Called_LoadBinaryResource TID_FILE ''extensions/set_page_color/manifest.json'',
               Callback_Run TID_UI callback0 (Some popup_manifest),
               bound_call callback0 (Some popup_manifest)])"
    unfolding step_one_UI_task_UI run_task_RunManifestCallback_UI by simp
  show ?thesis
    by (simp add: 1 2)
qed

lemma LoadExtension_off_UI:
  "cur \<noteq> TID_UI \<Longrightarrow> LoadExtension e cur request_context path handler w =
     Inr (CefPostTask TID_UI (Bind_LoadExtension request_context path handler) w)"
  by (simp add: LoadExtension_def CefCurrentlyOn_def)

lemma LoadExtension_on_UI:
  "LoadExtension e TID_UI request_context path handler w =
     (if spec_matches (build_relative_path e path)
      then Inr (CefPostTask TID_FILE
                  (Bind_GetInternalManifest path
                     (Bind_LoadExtensionWithManifest request_context path handler)) w)
      else Inr (emit (RequestContext_LoadExtension TID_UI request_context path None handler) w))"
  by (simp add: LoadExtension_def CefCurrentlyOn_def IsInternalExtension_eq
      GetInternalManifest_off_FILE)

lemma emit_idle: "emit ev idle = quiet [ev]"
  by (simp add: emit_def idle_def quiet_def)

lemma emit_quiet: "emit ev (quiet tr) = quiet (tr @ [ev])"
  by (simp add: emit_def quiet_def)

lemma post_UI_idle: "CefPostTask TID_UI t idle = one_UI_task t []"
  by (simp add: CefPostTask_def idle_def one_UI_task_def)

lemma IsInternalExtension_other_path: "IsInternalExtension posix_env other_path = Inr False"
  by (simp add: IsInternalExtension_eq eval_path other_path_def)

lemma IsInternalExtension_posix_set_page_color:
  "IsInternalExtension posix_env ''set_page_color'' = Inr True"
  by (simp add: IsInternalExtension_eq eval_path)

lemma release_root: "GetResourcesPath release_env = ''C:'' @ [CHR 0x5C]"
  by (simp add: GetResourcesPath_def release_env_def win_env_def)

lemma platform_release_env: "platform release_env = OS_WIN"
  by (simp add: release_env_def win_env_def)

lemma dcheck_envs: "dcheck_is_on win_env" "\<not> dcheck_is_on release_env"
  by (simp_all add: release_env_def win_env_def)

lemma IsInternalExtension_external_extension:
  "IsInternalExtension win_env (GetPath external_extension) = Inr False"
  "IsInternalExtension release_env (GetPath external_extension) = Inr False"
  by (simp_all add: IsInternalExtension_eq eval_path release_root platform_release_env
      external_extension_def)

lemma IsInternalExtension_internal_extension:
  "IsInternalExtension win_env (GetPath internal_extension) = Inr True"
  by (simp add: IsInternalExtension_eq eval_path internal_extension_def)

lemma no_resources_root: "GetResourcesPath no_resources_env = []"
  by (simp add: GetResourcesPath_def no_resources_env_def)

section \<open>Facts about first segments, environments and malformed paths\<close>

lemma first_segment_spec_matches:
  assumes "first_segment rel \<in> spec_allowlist"
  shows "spec_matches rel"
proof -
  let ?n = "''set_page_color''"
  define d where "d = dropWhile (\<lambda>c. c \<noteq> CHR ''/'') rel"
  from assms have t: "takeWhile (\<lambda>c. c \<noteq> CHR ''/'') rel = ?n"
    by (simp add: first_segment_def spec_allowlist_def)
  have "takeWhile (\<lambda>c. c \<noteq> CHR ''/'') rel @ d = rel"
    unfolding d_def by (rule takeWhile_dropWhile_id)
  then have rel: "?n @ d = rel"
    by (simp only: t)
  show ?thesis
  proof (cases d)
    case Nil
    then have "rel = ?n"
      using rel[symmetric] by simp
    then show ?thesis
      by (simp add: spec_matches_def spec_allowlist_def)
  next
    case (Cons c cs)
    have "d \<noteq> []" using Cons by simp
    then have "\<not> (hd d \<noteq> CHR ''/'')"
      unfolding d_def by (rule hd_dropWhile)
    then have "c = CHR ''/''"
      using Cons by simp
    then have "(?n @ ''/'') @ cs = rel"
      using rel[symmetric] Cons by simp
    then have "prefix (?n @ ''/'') rel"
      by (metis prefixI)
    then show ?thesis
      unfolding spec_matches_def spec_allowlist_def by blast
  qed
qed

lemma spec_matches_iff_first_segment:
  "spec_matches rel \<longleftrightarrow> first_segment rel \<in> spec_allowlist"
  using first_segment_spec_matches spec_matches_first_segment by blast

lemma GetResourcesPath_cong:
  "kPathSep e' = kPathSep e \<Longrightarrow> resources_dir e' = resources_dir e
     \<Longrightarrow> GetResourcesPath e' = GetResourcesPath e"
  by (simp add: GetResourcesPath_def split: option.splits)

lemma build_relative_path_cong:
  "platform e' = platform e \<Longrightarrow> kPathSep e' = kPathSep e
     \<Longrightarrow> resources_dir e' = resources_dir e
     \<Longrightarrow> build_relative_path e' path = build_relative_path e path"
  using GetResourcesPath_cong[of e' e]
  by (simp add: build_relative_path_def spec_strip_prefix_def)

lemma spec_malformed_paths:
  "spec_malformed traversal_path" "spec_malformed slashes_path" "spec_malformed nul_path"
  "spec_malformed malformed_other_path"
  by (simp_all add: spec_malformed_def split_path_def traversal_path_def slashes_path_def
      nul_path_def malformed_other_path_def)

section \<open>Claims about the path resolver\<close>

text \<open>
  Claim C1, as the code has it. \<^verbatim>\<open>IsInternalExtension(path)\<close> returns true exactly when
  the relative path equals an allowlisted name or begins with that name followed by a
  slash, where the relative path is the path with the bundled-resources prefix stripped
  (when the path starts with it) and, on Windows builds only, every backslash replaced by
  a slash; on other builds the stripped path is compared as it is. The table of the code
  holds exactly \<open>set_page_color\<close>. For every allowlisted name \<open>n\<close> and every suffix \<open>s\<close>,
  the resources prefix followed by \<open>n\<close>, and by \<open>n\<close>, a slash and \<open>s\<close>, are internal on
  every build. A relative path whose first segment is not allowlisted is not internal.
\<close>

theorem IsInternalExtension_classification:
  "IsInternalExtension e path = Inr (spec_matches (build_relative_path e path))
   \<and> set extensions = spec_allowlist
   \<and> (\<forall>n \<in> spec_allowlist. \<forall>s.
         IsInternalExtension e (GetResourcesPath e @ n @ ''/'' @ s) = Inr True
       \<and> IsInternalExtension e (GetResourcesPath e @ n) = Inr True)
   \<and> (first_segment (build_relative_path e path) \<notin> spec_allowlist
        \<longrightarrow> IsInternalExtension e path = Inr False)"
proof (intro conjI ballI allI impI)
  show "IsInternalExtension e path = Inr (spec_matches (build_relative_path e path))"
    by (rule IsInternalExtension_eq)
  show "set extensions = spec_allowlist"
    by (simp add: extensions_def spec_allowlist_def)
next
  fix n s assume "n \<in> spec_allowlist"
  then show "IsInternalExtension e (GetResourcesPath e @ n @ ''/'' @ s) = Inr True"
    and "IsInternalExtension e (GetResourcesPath e @ n) = Inr True"
    by (simp_all only: IsInternalExtension_eq build_relative_path_allowlisted)
next
  assume "first_segment (build_relative_path e path) \<notin> spec_allowlist"
  then have "\<not> spec_matches (build_relative_path e path)"
    using spec_matches_first_segment by blast
  then show "IsInternalExtension e path = Inr False"
    by (simp add: IsInternalExtension_eq)
qed

theorem IsInternalExtension_classification_witness:
  "IsInternalExtension win_env win_popup_path = Inr True
   \<and> ''set_page_color'' \<in> spec_allowlist
   \<and> IsInternalExtension posix_env (GetResourcesPath posix_env @ ''set_page_color'' @ ''/'' @ ''popup.html'') = Inr True
   \<and> IsInternalExtension posix_env (GetResourcesPath posix_env @ ''set_page_color'') = Inr True
   \<and> first_segment (build_relative_path posix_env other_path) \<notin> spec_allowlist
   \<and> IsInternalExtension posix_env other_path = Inr False"
proof -
  have a: "''set_page_color'' \<in> spec_allowlist"
    by (simp add: spec_allowlist_def)
  have h: "first_segment (build_relative_path posix_env other_path) \<notin> spec_allowlist"
    by (simp add: eval_path other_path_def)
  have m: "spec_matches (build_relative_path win_env win_popup_path)"
    by (simp add: eval_path win_popup_path_def)
  from IsInternalExtension_classification[of win_env win_popup_path] m
  have 1: "IsInternalExtension win_env win_popup_path = Inr True" by simp
  from IsInternalExtension_classification[of posix_env other_path] a h
  show ?thesis using 1 by blast
qed

text \<open>
  The claim as it is worded normalises the separators on every build. On a build that is
  not for Windows the code leaves the backslash alone, and a path of an allowlisted name,
  a backslash and a file name is external there.
\<close>

theorem IsInternalExtension_unconditional_normalize_counterexample:
  "IsInternalExtension posix_env backslash_path = Inr False
   \<and> spec_IsInternal posix_env backslash_path = True"
  by (simp add: IsInternalExtension_eq build_relative_path_def spec_IsInternal_def
      spec_matches_def spec_allowlist_def spec_normalize_def spec_strip_prefix_def
      GetResourcesPath_def posix_env_def backslash_path_def)

text \<open>
  Claim C6, as the code has it. \<^verbatim>\<open>GetInternalExtensionResourcePath(path)\<close> returns
  \<open>extensions/\<close> followed by the relative path (the prefix stripped; the separators
  normalised on Windows builds only), whether or not the path is internal.
  \<^verbatim>\<open>GetExtensionResourcePath(path, internal)\<close> returns that internal resource path when
  \<^verbatim>\<open>IsInternalExtension(path)\<close> is true and the path unchanged otherwise, and writes the
  classification through a non-null \<open>internal\<close>.
\<close>

theorem GetExtensionResourcePath_cases:
  "GetInternalExtensionResourcePath e path = Inr (''extensions/'' @ build_relative_path e path)
   \<and> (IsInternalExtension e path = Inr True \<longrightarrow>
        GetExtensionResourcePath e path None =
          Inr (''extensions/'' @ build_relative_path e path, None)
      \<and> GetExtensionResourcePath e path (Some b) =
          Inr (''extensions/'' @ build_relative_path e path, Some True))
   \<and> (IsInternalExtension e path = Inr False \<longrightarrow>
        GetExtensionResourcePath e path None = Inr (path, None)
      \<and> GetExtensionResourcePath e path (Some b) = Inr (path, Some False))"
  by (simp add: GetInternalExtensionResourcePath_eq GetExtensionResourcePath_eq
      IsInternalExtension_eq)

theorem GetExtensionResourcePath_cases_witness:
  "IsInternalExtension win_env win_popup_path = Inr True
   \<and> GetExtensionResourcePath win_env win_popup_path (Some False) =
        Inr (''extensions/set_page_color/popup.html'', Some True)
   \<and> IsInternalExtension posix_env other_path = Inr False
   \<and> GetExtensionResourcePath posix_env other_path (Some True) = Inr (other_path, Some False)
   \<and> GetInternalExtensionResourcePath posix_env other_path = Inr ''extensions/other/popup.html''"
proof -
  have 1: "IsInternalExtension win_env win_popup_path = Inr True"
    by (simp add: IsInternalExtension_eq eval_path win_popup_path_def)
  have 2: "IsInternalExtension posix_env other_path = Inr False"
    by (simp add: IsInternalExtension_eq eval_path other_path_def)
  have 3: "build_relative_path win_env win_popup_path = ''set_page_color/popup.html''"
    by (simp add: eval_path win_popup_path_def)
  have 4: "build_relative_path posix_env other_path = ''other/popup.html''"
    by (simp add: eval_path other_path_def)
  from GetExtensionResourcePath_cases[of win_env win_popup_path False]
    GetExtensionResourcePath_cases[of posix_env other_path True] 1 2 3 4
  show ?thesis by simp
qed

text \<open>
  With the separators normalised on every build the first part fails: on a build that is
  not for Windows a backslash of the path stays in the resource path.
\<close>

theorem GetInternalExtensionResourcePath_unconditional_normalize_counterexample:
  "GetInternalExtensionResourcePath posix_env backslash_icon
     \<noteq> Inr (spec_InternalResourcePath posix_env backslash_icon)"
  by (simp add: GetInternalExtensionResourcePath_eq spec_InternalResourcePath_def eval_path
      backslash_icon_def)

text \<open>
  Claim C7, as the code has it. Write \<open>r\<close> for \<^verbatim>\<open>GetInternalPath(p)\<close>, which is also
  \<^verbatim>\<open>GetInternalExtensionResourcePath(p)\<close> without its leading \<open>extensions/\<close>. Applying
  \<^verbatim>\<open>GetInternalPath\<close> (or \<^verbatim>\<open>GetInternalExtensionResourcePath\<close>) to \<open>r\<close> gives \<open>r\<close> again
  exactly when \<open>r\<close> does not itself begin with the non-empty resources prefix. That is
  so on every Windows build whose separator is the backslash (the prefix ends in a
  backslash and \<open>r\<close> has none), and whenever the resources prefix is empty.
\<close>

theorem GetInternalPath_idempotent_iff:
  "\<exists>r. GetInternalPath e p = Inr r
     \<and> GetInternalExtensionResourcePath e p = Inr (''extensions/'' @ r)
     \<and> strip_extensions (''extensions/'' @ r) = r
     \<and> ((GetInternalPath e r = Inr r) =
         (\<not> (GetResourcesPath e \<noteq> [] \<and> prefix (GetResourcesPath e) r)))
     \<and> ((GetInternalExtensionResourcePath e r = Inr (''extensions/'' @ r)) =
         (\<not> (GetResourcesPath e \<noteq> [] \<and> prefix (GetResourcesPath e) r)))
     \<and> (platform e = OS_WIN \<and> kPathSep e = CHR 0x5C \<longrightarrow> GetInternalPath e r = Inr r)
     \<and> (GetResourcesPath e = [] \<longrightarrow> GetInternalPath e r = Inr r)"
proof (intro exI[of _ "build_relative_path e p"] conjI impI)
  show "GetInternalPath e p = Inr (build_relative_path e p)"
    by (rule GetInternalPath_eq)
  show "GetInternalExtensionResourcePath e p = Inr (''extensions/'' @ build_relative_path e p)"
    by (rule GetInternalExtensionResourcePath_eq)
  show "strip_extensions (''extensions/'' @ build_relative_path e p) = build_relative_path e p"
    by (simp add: strip_extensions_def)
  show "(GetInternalPath e (build_relative_path e p) = Inr (build_relative_path e p)) =
        (\<not> (GetResourcesPath e \<noteq> [] \<and> prefix (GetResourcesPath e) (build_relative_path e p)))"
    by (simp only: GetInternalPath_eq sum.inject build_relative_path_idem_iff)
  show "(GetInternalExtensionResourcePath e (build_relative_path e p)
           = Inr (''extensions/'' @ build_relative_path e p)) =
        (\<not> (GetResourcesPath e \<noteq> [] \<and> prefix (GetResourcesPath e) (build_relative_path e p)))"
    by (simp only: GetInternalExtensionResourcePath_eq sum.inject same_append_eq
        build_relative_path_idem_iff)
next
  assume "platform e = OS_WIN \<and> kPathSep e = CHR 0x5C"
  then show "GetInternalPath e (build_relative_path e p) = Inr (build_relative_path e p)"
    using win_prefix_never_remains[of e p] build_relative_path_fixed[of e p]
    by (simp add: GetInternalPath_eq)
next
  assume "GetResourcesPath e = []"
  then show "GetInternalPath e (build_relative_path e p) = Inr (build_relative_path e p)"
    using build_relative_path_fixed[of e p] by (simp add: GetInternalPath_eq)
qed

theorem GetInternalPath_idempotent_iff_witness:
  "platform win_env = OS_WIN \<and> kPathSep win_env = CHR 0x5C
   \<and> GetInternalPath win_env win_popup_path = Inr ''set_page_color/popup.html''
   \<and> GetInternalPath win_env ''set_page_color/popup.html'' = Inr ''set_page_color/popup.html''
   \<and> GetResourcesPath no_resources_env = []
   \<and> GetInternalPath no_resources_env other_path = Inr other_path
   \<and> GetInternalPath posix_env other_path = Inr ''other/popup.html''
   \<and> \<not> prefix (GetResourcesPath posix_env) ''other/popup.html''
   \<and> GetInternalPath posix_env ''other/popup.html'' = Inr ''other/popup.html''"
proof -
  have 1: "platform win_env = OS_WIN \<and> kPathSep win_env = CHR 0x5C"
    by (simp add: win_env_def)
  have 2: "GetInternalPath win_env win_popup_path = Inr ''set_page_color/popup.html''"
    by (simp add: GetInternalPath_eq eval_path win_popup_path_def)
  from GetInternalPath_idempotent_iff[of win_env win_popup_path] 1 2
  have 3: "GetInternalPath win_env ''set_page_color/popup.html''
      = Inr ''set_page_color/popup.html''"
    by auto
  have 4: "GetInternalPath no_resources_env other_path = Inr other_path"
    by (simp add: GetInternalPath_eq build_relative_path_def spec_strip_prefix_def
        no_resources_root) (simp add: no_resources_env_def platform_posix_env)
  from GetInternalPath_idempotent_iff[of no_resources_env other_path] 4 no_resources_root
  have 5: "GetInternalPath no_resources_env other_path = Inr other_path"
    by auto
  have 6: "GetInternalPath posix_env other_path = Inr ''other/popup.html''"
    by (simp add: GetInternalPath_eq eval_path other_path_def)
  have 7: "\<not> prefix (GetResourcesPath posix_env) ''other/popup.html''"
    by (simp add: posix_root)
  from GetInternalPath_idempotent_iff[of posix_env other_path] 6 7
  have 8: "GetInternalPath posix_env ''other/popup.html'' = Inr ''other/popup.html''"
    by auto
  show ?thesis
    by (intro conjI 1[THEN conjunct1] 1[THEN conjunct2] 2 3 no_resources_root 5 6 7 8)
qed

text \<open>
  For every path the claim fails: the prefix is stripped once per call, so a path that
  carries it twice loses it a second time on the second call.
\<close>

theorem GetInternalPath_idempotent_counterexample:
  "GetInternalPath posix_env doubled_prefix_path = Inr ''/res/set_page_color''
   \<and> GetInternalPath posix_env ''/res/set_page_color'' = Inr ''set_page_color''
   \<and> GetInternalExtensionResourcePath posix_env doubled_prefix_path
        = Inr ''extensions//res/set_page_color''
   \<and> GetInternalExtensionResourcePath posix_env
        (strip_extensions ''extensions//res/set_page_color'')
        = Inr ''extensions/set_page_color''"
  by (simp add: GetInternalPath_eq GetInternalExtensionResourcePath_eq eval_path
      doubled_prefix_path_def strip_extensions_def)

text \<open>
  Claim C8, as the code has it. \<^verbatim>\<open>IsInternalExtension\<close>,
  \<^verbatim>\<open>GetInternalExtensionResourcePath\<close> and \<^verbatim>\<open>GetExtensionResourcePath\<close> return on every
  path in every environment, the empty path and malformed paths included: the one
  operation that can throw, \<^verbatim>\<open>substr\<close>, is only reached with a position inside the
  string. Their results depend on the path and, of the environment, on the platform, the
  path separator and the resources directory only; the one thing they change is the
  \<^verbatim>\<open>bool\<close> behind a non-null \<open>internal\<close>, which receives the classification. The empty
  path is external. A path, malformed or not, is external exactly when the first segment
  of its relative path is not an allowlisted name; a malformed path under an allowlisted
  name is internal.
\<close>

theorem path_resolver_total:
  "(\<exists>b. IsInternalExtension e path = Inr b
        \<and> (\<exists>r. GetExtensionResourcePath e path internal =
                  Inr (r, map_option (\<lambda>_. b) internal)))
   \<and> (\<exists>r. GetInternalExtensionResourcePath e path = Inr r)
   \<and> IsInternalExtension e [] = Inr False
   \<and> GetInternalExtensionResourcePath e [] = Inr ''extensions/''
   \<and> GetExtensionResourcePath e [] internal = Inr ([], map_option (\<lambda>_. False) internal)
   \<and> (platform e' = platform e \<and> kPathSep e' = kPathSep e
        \<and> resources_dir e' = resources_dir e
      \<longrightarrow> IsInternalExtension e' path = IsInternalExtension e path
        \<and> GetInternalExtensionResourcePath e' path = GetInternalExtensionResourcePath e path
        \<and> GetExtensionResourcePath e' path internal = GetExtensionResourcePath e path internal)
   \<and> ((IsInternalExtension e path = Inr False)
        = (first_segment (build_relative_path e path) \<notin> spec_allowlist))
   \<and> (spec_malformed path \<longrightarrow>
        IsInternalExtension e path
          = Inr (first_segment (build_relative_path e path) \<in> spec_allowlist))"
proof (intro conjI impI)
  show "\<exists>b. IsInternalExtension e path = Inr b
        \<and> (\<exists>r. GetExtensionResourcePath e path internal =
                  Inr (r, map_option (\<lambda>_. b) internal))"
    by (simp add: IsInternalExtension_eq GetExtensionResourcePath_eq)
  show "\<exists>r. GetInternalExtensionResourcePath e path = Inr r"
    by (simp add: GetInternalExtensionResourcePath_eq)
  have r: "build_relative_path e [] = []"
    by (simp add: build_relative_path_def spec_strip_prefix_def spec_normalize_def)
  have m: "\<not> spec_matches []"
    by (simp add: spec_matches_def spec_allowlist_def)
  show "IsInternalExtension e [] = Inr False"
    by (simp add: IsInternalExtension_eq r m)
  show "GetInternalExtensionResourcePath e [] = Inr ''extensions/''"
    by (simp add: GetInternalExtensionResourcePath_eq r)
  show "GetExtensionResourcePath e [] internal = Inr ([], map_option (\<lambda>_. False) internal)"
    by (simp add: GetExtensionResourcePath_eq r m)
  show "(IsInternalExtension e path = Inr False)
        = (first_segment (build_relative_path e path) \<notin> spec_allowlist)"
    by (simp add: IsInternalExtension_eq spec_matches_iff_first_segment)
  show "IsInternalExtension e path
          = Inr (first_segment (build_relative_path e path) \<in> spec_allowlist)"
    by (simp add: IsInternalExtension_eq spec_matches_iff_first_segment)
next
  assume "platform e' = platform e \<and> kPathSep e' = kPathSep e
        \<and> resources_dir e' = resources_dir e"
  then have "build_relative_path e' path = build_relative_path e path"
    using build_relative_path_cong[of e' e path] by simp
  then show "IsInternalExtension e' path = IsInternalExtension e path"
    and "GetInternalExtensionResourcePath e' path = GetInternalExtensionResourcePath e path"
    and "GetExtensionResourcePath e' path internal = GetExtensionResourcePath e path internal"
    by (simp_all add: IsInternalExtension_eq GetInternalExtensionResourcePath_eq
        GetExtensionResourcePath_eq)
qed

theorem path_resolver_total_witness:
  "platform bundled_env = platform posix_env \<and> kPathSep bundled_env = kPathSep posix_env
   \<and> resources_dir bundled_env = resources_dir posix_env
   \<and> IsInternalExtension bundled_env other_path = IsInternalExtension posix_env other_path
   \<and> spec_malformed malformed_other_path
   \<and> first_segment (build_relative_path posix_env malformed_other_path) = ''..''
   \<and> IsInternalExtension posix_env malformed_other_path = Inr False
   \<and> spec_malformed traversal_path
   \<and> first_segment (build_relative_path posix_env traversal_path) = ''set_page_color''
   \<and> IsInternalExtension posix_env traversal_path = Inr True"
proof -
  have c: "platform bundled_env = platform posix_env \<and> kPathSep bundled_env = kPathSep posix_env
     \<and> resources_dir bundled_env = resources_dir posix_env"
    by (simp add: bundled_env_def)
  from path_resolver_total[of posix_env other_path None bundled_env] c
  have 1: "IsInternalExtension bundled_env other_path = IsInternalExtension posix_env other_path"
    by blast
  have f1: "first_segment (build_relative_path posix_env malformed_other_path) = ''..''"
    by (simp add: eval_path malformed_other_path_def)
  have f2: "first_segment (build_relative_path posix_env traversal_path) = ''set_page_color''"
    by (simp add: eval_path traversal_path_def)
  from path_resolver_total[of posix_env malformed_other_path None posix_env]
    spec_malformed_paths(4) f1
  have 2: "IsInternalExtension posix_env malformed_other_path = Inr False"
    by (simp add: spec_allowlist_def)
  from path_resolver_total[of posix_env traversal_path None posix_env]
    spec_malformed_paths(1) f2
  have 3: "IsInternalExtension posix_env traversal_path = Inr True"
    by (simp add: spec_allowlist_def)
  show ?thesis
    by (intro conjI c[THEN conjunct1] c[THEN conjunct2, THEN conjunct1]
        c[THEN conjunct2, THEN conjunct2] 1 spec_malformed_paths(4) f1 2
        spec_malformed_paths(1) f2 3)
qed

text \<open>
  That any malformed path is external fails: a path that climbs out with \<open>..\<close>, one
  with slashes in a row and one with a NUL byte are internal when they begin with
  \<open>set_page_color/\<close>.
\<close>

theorem malformed_path_internal_counterexample:
  "spec_malformed traversal_path
   \<and> IsInternalExtension posix_env traversal_path = Inr True
   \<and> spec_malformed slashes_path
   \<and> IsInternalExtension posix_env slashes_path = Inr True
   \<and> spec_malformed nul_path
   \<and> IsInternalExtension win_env nul_path = Inr True"
proof -
  have 1: "IsInternalExtension posix_env traversal_path = Inr True"
    by (simp add: IsInternalExtension_eq eval_path traversal_path_def)
  have 2: "IsInternalExtension posix_env slashes_path = Inr True"
    by (simp add: IsInternalExtension_eq eval_path slashes_path_def)
  have 3: "IsInternalExtension win_env nul_path = Inr True"
    by (simp add: IsInternalExtension_eq eval_path nul_path_def)
  show ?thesis
    by (intro conjI spec_malformed_paths(1) 1 spec_malformed_paths(2) 2
        spec_malformed_paths(3) 3)
qed

section \<open>Claims about the manifest fields\<close>

text \<open>
  Claim C4. \<^verbatim>\<open>GetExtensionOrigin(id)\<close> is \<open>chrome-extension://\<close>, the identifier and a
  slash. When the manifest has a dictionary \<open>browser_action\<close> whose \<open>default_popup\<close> is a
  non-empty string, \<^verbatim>\<open>GetExtensionURL\<close> returns the origin of the extension's identifier
  followed by that string. For the manifest
  \<^verbatim>\<open>{"browser_action":{"default_popup":"popup.html"}}\<close> and the identifier \<open>abc123\<close> it
  returns exactly \<open>chrome-extension://abc123/popup.html\<close>.
\<close>

theorem GetExtensionURL_popup:
  "GetExtensionOrigin extension_id = ''chrome-extension://'' @ extension_id @ ''/''
   \<and> (map_of (GetManifest extension) ''browser_action'' = Some (VTYPE_DICTIONARY browser_action)
        \<and> map_of browser_action ''default_popup'' = Some (VTYPE_STRING default_popup)
        \<and> default_popup \<noteq> []
        \<longrightarrow> GetExtensionURL extension
              = GetExtensionOrigin (GetIdentifier extension) @ default_popup)
   \<and> GetExtensionURL \<lparr> GetIdentifier = ''abc123'', GetPath = path, GetManifest = popup_manifest \<rparr>
       = ''chrome-extension://abc123/popup.html''"
  by (simp add: GetExtensionURL_def GetExtensionOrigin_def GetDictionary_def GetString_def
      popup_manifest_def)

theorem GetExtensionURL_popup_witness:
  "map_of popup_manifest ''browser_action''
     = Some (VTYPE_DICTIONARY [(''default_popup'', VTYPE_STRING ''popup.html'')])
   \<and> map_of [(''default_popup'', VTYPE_STRING ''popup.html'')] ''default_popup''
     = Some (VTYPE_STRING ''popup.html'')
   \<and> ''popup.html'' \<noteq> []
   \<and> GetExtensionURL \<lparr> GetIdentifier = ''abc123'', GetPath = ''set_page_color'',
                        GetManifest = popup_manifest \<rparr>
     = GetExtensionOrigin ''abc123'' @ ''popup.html''"
proof -
  have 1: "map_of popup_manifest ''browser_action''
     = Some (VTYPE_DICTIONARY [(''default_popup'', VTYPE_STRING ''popup.html'')])"
    by (simp add: popup_manifest_def)
  from GetExtensionURL_popup[where default_popup = "''popup.html''"
      and browser_action = "[(''default_popup'', VTYPE_STRING ''popup.html'')]"
      and extension = "\<lparr> GetIdentifier = ''abc123'', GetPath = ''set_page_color'',
         GetManifest = popup_manifest \<rparr>"] 1
  show ?thesis by simp
qed

text \<open>
  Claim C5. For a manifest that is the empty object, or has no dictionary under
  \<open>browser_action\<close>, \<^verbatim>\<open>GetExtensionURL\<close> and \<^verbatim>\<open>GetExtensionIconPath\<close> both return the
  empty string; so does \<^verbatim>\<open>GetExtensionURL\<close> when \<open>default_popup\<close> is empty, and
  \<^verbatim>\<open>GetExtensionIconPath\<close> when \<open>default_icon\<close> is empty. Neither call fails, and
  \<^verbatim>\<open>GetExtensionIconPath\<close> leaves the \<^verbatim>\<open>bool\<close> behind \<open>internal\<close> as it was.
\<close>

theorem no_browser_action_empty_results:
  "(GetManifest extension = []
      \<or> (\<forall>d. map_of (GetManifest extension) ''browser_action'' \<noteq> Some (VTYPE_DICTIONARY d))
     \<longrightarrow> GetExtensionURL extension = []
         \<and> GetExtensionIconPath e extension internal = Inr ([], internal))
   \<and> (map_of (GetManifest extension) ''browser_action'' = Some (VTYPE_DICTIONARY browser_action)
        \<and> GetString browser_action ''default_popup'' = []
     \<longrightarrow> GetExtensionURL extension = [])
   \<and> (map_of (GetManifest extension) ''browser_action'' = Some (VTYPE_DICTIONARY browser_action)
        \<and> GetString browser_action ''default_icon'' = []
     \<longrightarrow> GetExtensionIconPath e extension internal = Inr ([], internal))"
proof (intro conjI impI)
  assume a: "GetManifest extension = []
      \<or> (\<forall>d. map_of (GetManifest extension) ''browser_action'' \<noteq> Some (VTYPE_DICTIONARY d))"
  then have "GetDictionary (GetManifest extension) ''browser_action'' = None"
    by (auto simp: GetDictionary_def split: option.splits cef_value.splits)
  then show "GetExtensionURL extension = []"
    and "GetExtensionIconPath e extension internal = Inr ([], internal)"
    by (simp_all add: GetExtensionURL_def GetExtensionIconPath_def)
next
  assume "map_of (GetManifest extension) ''browser_action'' = Some (VTYPE_DICTIONARY browser_action)
        \<and> GetString browser_action ''default_popup'' = []"
  then show "GetExtensionURL extension = []"
    by (simp add: GetExtensionURL_def GetDictionary_def)
next
  assume "map_of (GetManifest extension) ''browser_action'' = Some (VTYPE_DICTIONARY browser_action)
        \<and> GetString browser_action ''default_icon'' = []"
  then show "GetExtensionIconPath e extension internal = Inr ([], internal)"
    by (simp add: GetExtensionIconPath_def GetDictionary_def)
qed

theorem no_browser_action_empty_results_witness:
  "GetExtensionURL \<lparr> GetIdentifier = ''abc123'', GetPath = ''set_page_color'', GetManifest = [] \<rparr> = []
   \<and> GetExtensionIconPath posix_env
        \<lparr> GetIdentifier = ''abc123'', GetPath = ''set_page_color'', GetManifest = [] \<rparr> (Some True)
      = Inr ([], Some True)
   \<and> GetExtensionURL \<lparr> GetIdentifier = ''abc123'', GetPath = ''set_page_color'',
                         GetManifest = string_action_manifest \<rparr> = []
   \<and> GetString [(''default_icon'', VTYPE_STRING ''icon.png'')] ''default_popup'' = []
   \<and> GetExtensionURL \<lparr> GetIdentifier = ''abc123'', GetPath = ''set_page_color'',
                         GetManifest = icon_manifest \<rparr> = []
   \<and> GetString [(''default_popup'', VTYPE_STRING ''popup.html'')] ''default_icon'' = []
   \<and> GetExtensionIconPath win_env
        \<lparr> GetIdentifier = ''abc123'', GetPath = ''set_page_color'', GetManifest = popup_manifest \<rparr> None
      = Inr ([], None)"
proof -
  let ?empty = "\<lparr> GetIdentifier = ''abc123'', GetPath = ''set_page_color'', GetManifest = [] \<rparr>"
  let ?str = "\<lparr> GetIdentifier = ''abc123'', GetPath = ''set_page_color'',
                 GetManifest = string_action_manifest \<rparr>"
  let ?icon = "\<lparr> GetIdentifier = ''abc123'', GetPath = ''set_page_color'',
                 GetManifest = icon_manifest \<rparr>"
  let ?popup = "\<lparr> GetIdentifier = ''abc123'', GetPath = ''set_page_color'',
                 GetManifest = popup_manifest \<rparr>"
  have a: "GetExtensionURL ?empty = []
      \<and> GetExtensionIconPath posix_env ?empty (Some True) = Inr ([], Some True)"
    using no_browser_action_empty_results[where e = posix_env and internal = "Some True"
      and extension = ?empty and browser_action = "[]", THEN conjunct1]
    by simp
  have "\<forall>d. map_of string_action_manifest ''browser_action'' \<noteq> Some (VTYPE_DICTIONARY d)"
    by (simp add: string_action_manifest_def)
  then have b: "GetExtensionURL ?str = []"
    using no_browser_action_empty_results[where e = posix_env and internal = None
      and extension = ?str and browser_action = "[]", THEN conjunct1]
    by simp
  have c0: "GetString [(''default_icon'', VTYPE_STRING ''icon.png'')] ''default_popup'' = []"
    by (simp add: GetString_def)
  have "map_of icon_manifest ''browser_action''
     = Some (VTYPE_DICTIONARY [(''default_icon'', VTYPE_STRING ''icon.png'')])"
    by (simp add: icon_manifest_def)
  with c0 have c: "GetExtensionURL ?icon = []"
    using no_browser_action_empty_results[where e = posix_env and internal = None
      and extension = ?icon
      and browser_action = "[(''default_icon'', VTYPE_STRING ''icon.png'')]",
      THEN conjunct2, THEN conjunct1]
    by simp
  have d0: "GetString [(''default_popup'', VTYPE_STRING ''popup.html'')] ''default_icon'' = []"
    by (simp add: GetString_def)
  have "map_of popup_manifest ''browser_action''
     = Some (VTYPE_DICTIONARY [(''default_popup'', VTYPE_STRING ''popup.html'')])"
    by (simp add: popup_manifest_def)
  with d0 have d: "GetExtensionIconPath win_env ?popup None = Inr ([], None)"
    using no_browser_action_empty_results[where e = win_env and internal = None
      and extension = ?popup
      and browser_action = "[(''default_popup'', VTYPE_STRING ''popup.html'')]",
      THEN conjunct2, THEN conjunct2]
    by simp
  show ?thesis
    by (intro conjI a[THEN conjunct1] a[THEN conjunct2] b c0 c d0 d)
qed

section \<open>Claims about the manifest loader\<close>

text \<open>
  Claim C2. On the FILE thread \<^verbatim>\<open>GetInternalManifest\<close> calls \<^verbatim>\<open>LoadBinaryResource\<close> on
  the manifest path and then, in any world, does exactly this: when the load fails or the
  content is empty, it logs one line and posts one \<^verbatim>\<open>RunManifestCallback\<close> task with the
  null manifest to the UI thread; when the content does not parse to a dictionary, it logs
  one line carrying the parser's message (or the generic one) and posts one such task
  with the null manifest; when the content parses to a dictionary, it logs nothing and
  posts one such task with that dictionary. Such a task, posted in an otherwise idle
  world, is never lost and never doubled: under every schedule of the threads the run
  does not fail, nothing more is logged, the callback has run exactly once (on the UI
  thread, with that manifest) as soon as the UI thread has taken a turn, and until then
  it has not run and the task is still the one queued on the UI thread.
\<close>

theorem GetInternalManifest_delivers_once:
  "(LoadBinaryResource e (manifest_path_of e path) = None
        \<or> LoadBinaryResource e (manifest_path_of e path) = Some []
      \<longrightarrow> GetInternalManifest e TID_FILE path callback w =
            Inr (CefPostTask TID_UI (Bind_RunManifestCallback callback None)
                  (w\<lparr> trace := trace w @
                      [Called_LoadBinaryResource TID_FILE (manifest_path_of e path),
                       LOG_ERROR (''Failed to load manifest from '' @ manifest_path_of e path)] \<rparr>)))
   \<and> (\<forall>c v msg. LoadBinaryResource e (manifest_path_of e path) = Some c \<and> c \<noteq> []
          \<and> CefParseJSONAndReturnError e c = (v, msg)
          \<and> (\<forall>d. v \<noteq> Some (VTYPE_DICTIONARY d))
      \<longrightarrow> GetInternalManifest e TID_FILE path callback w =
            Inr (CefPostTask TID_UI (Bind_RunManifestCallback callback None)
                  (w\<lparr> trace := trace w @
                      [Called_LoadBinaryResource TID_FILE (manifest_path_of e path),
                       LOG_ERROR (''Failed to parse manifest from '' @ manifest_path_of e path
                         @ ''; '' @ (if msg = []
                                      then ''Incorrectly formatted dictionary contents.''
                                      else msg))] \<rparr>)))
   \<and> (\<forall>c d msg. LoadBinaryResource e (manifest_path_of e path) = Some c \<and> c \<noteq> []
          \<and> CefParseJSONAndReturnError e c = (Some (VTYPE_DICTIONARY d), msg)
      \<longrightarrow> GetInternalManifest e TID_FILE path callback w =
            Inr (CefPostTask TID_UI (Bind_RunManifestCallback callback (Some d))
                  (w\<lparr> trace := trace w @
                      [Called_LoadBinaryResource TID_FILE (manifest_path_of e path)] \<rparr>)))
   \<and> (\<forall>manifest tr sched. \<exists>w2.
         run e sched (CefPostTask TID_UI (Bind_RunManifestCallback callback manifest)
                        (idle\<lparr> trace := tr \<rparr>)) = Inr w2
       \<and> logged (trace w2) = logged tr
       \<and> deliveries (trace w2) =
           deliveries tr @ (if TID_UI \<in> set sched then [(TID_UI, callback, manifest)] else [])
       \<and> queues w2 TID_UI =
           (if TID_UI \<in> set sched then [] else [Bind_RunManifestCallback callback manifest]))"
proof (intro conjI allI impI)
  assume "LoadBinaryResource e (manifest_path_of e path) = None
        \<or> LoadBinaryResource e (manifest_path_of e path) = Some []"
  then show "GetInternalManifest e TID_FILE path callback w =
            Inr (CefPostTask TID_UI (Bind_RunManifestCallback callback None)
                  (w\<lparr> trace := trace w @
                      [Called_LoadBinaryResource TID_FILE (manifest_path_of e path),
                       LOG_ERROR (''Failed to load manifest from '' @ manifest_path_of e path)] \<rparr>))"
    by (auto simp: GetInternalManifest_on_FILE RunManifestCallback_on_FILE emit_def
        CefPostTask_def Let_def)
next
  fix c v msg
  assume a: "LoadBinaryResource e (manifest_path_of e path) = Some c \<and> c \<noteq> []
          \<and> CefParseJSONAndReturnError e c = (v, msg)
          \<and> (\<forall>d. v \<noteq> Some (VTYPE_DICTIONARY d))"
  then show "GetInternalManifest e TID_FILE path callback w =
            Inr (CefPostTask TID_UI (Bind_RunManifestCallback callback None)
                  (w\<lparr> trace := trace w @
                      [Called_LoadBinaryResource TID_FILE (manifest_path_of e path),
                       LOG_ERROR (''Failed to parse manifest from '' @ manifest_path_of e path
                         @ ''; '' @ (if msg = []
                                      then ''Incorrectly formatted dictionary contents.''
                                      else msg))] \<rparr>))"
    by (simp add: GetInternalManifest_on_FILE RunManifestCallback_on_FILE emit_def
        CefPostTask_def Let_def split: option.splits cef_value.splits)
next
  fix c d msg
  assume "LoadBinaryResource e (manifest_path_of e path) = Some c \<and> c \<noteq> []
          \<and> CefParseJSONAndReturnError e c = (Some (VTYPE_DICTIONARY d), msg)"
  then show "GetInternalManifest e TID_FILE path callback w =
            Inr (CefPostTask TID_UI (Bind_RunManifestCallback callback (Some d))
                  (w\<lparr> trace := trace w @
                      [Called_LoadBinaryResource TID_FILE (manifest_path_of e path)] \<rparr>))"
    by (simp add: GetInternalManifest_on_FILE RunManifestCallback_on_FILE emit_def
        CefPostTask_def Let_def)
next
  fix manifest tr sched
  from run_pending_delivery[of e sched callback manifest tr]
  obtain w2 where
    r: "run e sched (CefPostTask TID_UI (Bind_RunManifestCallback callback manifest)
                      (idle\<lparr> trace := tr \<rparr>)) = Inr w2"
    and t: "trace w2 = (if TID_UI \<in> set sched
                    then tr @ [Callback_Run TID_UI callback manifest, bound_call callback manifest]
                    else tr)"
    and q: "queues w2 TID_UI =
           (if TID_UI \<in> set sched then [] else [Bind_RunManifestCallback callback manifest])"
    by blast
  have "logged (trace w2) = logged tr"
    by (simp add: t logged_append logged_bound_call)
  moreover have "deliveries (trace w2) =
       deliveries tr @ (if TID_UI \<in> set sched then [(TID_UI, callback, manifest)] else [])"
    by (simp add: t deliveries_append deliveries_bound_call)
  ultimately show "\<exists>w2.
         run e sched (CefPostTask TID_UI (Bind_RunManifestCallback callback manifest)
                        (idle\<lparr> trace := tr \<rparr>)) = Inr w2
       \<and> logged (trace w2) = logged tr
       \<and> deliveries (trace w2) =
           deliveries tr @ (if TID_UI \<in> set sched then [(TID_UI, callback, manifest)] else [])
       \<and> queues w2 TID_UI =
           (if TID_UI \<in> set sched then [] else [Bind_RunManifestCallback callback manifest])"
    using r q by blast
qed

theorem GetInternalManifest_delivers_once_witness:
  "LoadBinaryResource posix_env (manifest_path_of posix_env ''set_page_color'') = None
   \<and> GetInternalManifest posix_env TID_FILE ''set_page_color'' callback0 idle =
       Inr (one_UI_task (Bind_RunManifestCallback callback0 None)
             [Called_LoadBinaryResource TID_FILE ''extensions/set_page_color/manifest.json'',
              LOG_ERROR ''Failed to load manifest from extensions/set_page_color/manifest.json''])
   \<and> LoadBinaryResource garbled_env (manifest_path_of garbled_env ''set_page_color'')
       = Some truncated_json
   \<and> truncated_json \<noteq> []
   \<and> CefParseJSONAndReturnError garbled_env truncated_json = (None, ''Unexpected token.'')
   \<and> GetInternalManifest garbled_env TID_FILE ''set_page_color'' callback0 idle =
       Inr (one_UI_task (Bind_RunManifestCallback callback0 None)
             [Called_LoadBinaryResource TID_FILE ''extensions/set_page_color/manifest.json'',
              LOG_ERROR (''Failed to parse manifest from extensions/set_page_color/manifest.json''
                         @ ''; Unexpected token.'')])
   \<and> LoadBinaryResource bundled_env (manifest_path_of bundled_env ''set_page_color'')
       = Some popup_manifest_json
   \<and> popup_manifest_json \<noteq> []
   \<and> CefParseJSONAndReturnError bundled_env popup_manifest_json
       = (Some (VTYPE_DICTIONARY popup_manifest), [])
   \<and> GetInternalManifest bundled_env TID_FILE ''set_page_color'' callback0 idle =
       Inr (one_UI_task (Bind_RunManifestCallback callback0 (Some popup_manifest))
             [Called_LoadBinaryResource TID_FILE ''extensions/set_page_color/manifest.json''])
   \<and> (\<exists>w2. run bundled_env [TID_IO, TID_UI, TID_FILE, TID_UI]
              (one_UI_task (Bind_RunManifestCallback callback0 (Some popup_manifest))
                [Called_LoadBinaryResource TID_FILE ''extensions/set_page_color/manifest.json''])
            = Inr w2
          \<and> logged (trace w2) = []
          \<and> deliveries (trace w2) = [(TID_UI, callback0, Some popup_manifest)]
          \<and> queues w2 TID_UI = [])"
proof -
  note T = GetInternalManifest_delivers_once[where path = "''set_page_color''"
      and callback = callback0 and w = idle]
  have p1: "LoadBinaryResource posix_env (manifest_path_of posix_env ''set_page_color'') = None"
    by (rule LoadBinaryResource_posix_env)
  have g1: "LoadBinaryResource garbled_env (manifest_path_of garbled_env ''set_page_color'')
       = Some truncated_json"
    by (rule LoadBinaryResource_garbled_env)
  have g2: "CefParseJSONAndReturnError garbled_env truncated_json = (None, ''Unexpected token.'')"
    by (rule CefParseJSONAndReturnError_garbled_env)
  have b1: "LoadBinaryResource bundled_env (manifest_path_of bundled_env ''set_page_color'')
       = Some popup_manifest_json"
    by (simp add: manifest_path_bundled LoadBinaryResource_bundled_env)
  have b2: "CefParseJSONAndReturnError bundled_env popup_manifest_json
       = (Some (VTYPE_DICTIONARY popup_manifest), [])"
    by (rule CefParseJSONAndReturnError_bundled_env)
  have W1: "GetInternalManifest posix_env TID_FILE ''set_page_color'' callback0 idle =
       Inr (one_UI_task (Bind_RunManifestCallback callback0 None)
             [Called_LoadBinaryResource TID_FILE ''extensions/set_page_color/manifest.json'',
              LOG_ERROR ''Failed to load manifest from extensions/set_page_color/manifest.json''])"
    using T[of posix_env, THEN conjunct1] p1
    by (simp add: manifest_path_posix trace_idle post_UI_idle_trace)
  have W2: "GetInternalManifest garbled_env TID_FILE ''set_page_color'' callback0 idle =
       Inr (one_UI_task (Bind_RunManifestCallback callback0 None)
             [Called_LoadBinaryResource TID_FILE ''extensions/set_page_color/manifest.json'',
              LOG_ERROR (''Failed to parse manifest from extensions/set_page_color/manifest.json''
                         @ ''; Unexpected token.'')])"
    using T[of garbled_env, THEN conjunct2, THEN conjunct1, THEN spec[of _ truncated_json],
        THEN spec[of _ None], THEN spec[of _ "''Unexpected token.''"]]
      g1 g2 truncated_json_nonempty
    by (simp add: manifest_path_garbled trace_idle post_UI_idle_trace)
  have W3: "GetInternalManifest bundled_env TID_FILE ''set_page_color'' callback0 idle =
       Inr (one_UI_task (Bind_RunManifestCallback callback0 (Some popup_manifest))
             [Called_LoadBinaryResource TID_FILE ''extensions/set_page_color/manifest.json''])"
    using T[of bundled_env, THEN conjunct2, THEN conjunct2, THEN conjunct1,
        THEN spec[of _ popup_manifest_json], THEN spec[of _ popup_manifest],
        THEN spec[of _ "[]"]]
      b1 b2 popup_manifest_json_nonempty
    by (simp add: manifest_path_bundled trace_idle post_UI_idle_trace)
  have W4: "\<exists>w2. run bundled_env [TID_IO, TID_UI, TID_FILE, TID_UI]
              (one_UI_task (Bind_RunManifestCallback callback0 (Some popup_manifest))
                [Called_LoadBinaryResource TID_FILE ''extensions/set_page_color/manifest.json''])
            = Inr w2
          \<and> logged (trace w2) = []
          \<and> deliveries (trace w2) = [(TID_UI, callback0, Some popup_manifest)]
          \<and> queues w2 TID_UI = []"
    using T[of bundled_env, THEN conjunct2, THEN conjunct2, THEN conjunct2,
        THEN spec[of _ "Some popup_manifest"],
        THEN spec[of _
          "[Called_LoadBinaryResource TID_FILE ''extensions/set_page_color/manifest.json'']"],
        THEN spec[of _ "[TID_IO, TID_UI, TID_FILE, TID_UI]"]]
    by (simp add: post_UI_idle_trace)
  show ?thesis
    by (intro conjI p1 W1 g1 truncated_json_nonempty g2 W2 b1 popup_manifest_json_nonempty
        b2 W3 W4)
qed

text \<open>
  Claim C3. Start in any world that queues only pipeline tasks and in which every callback
  so far ran on the UI thread. \<^verbatim>\<open>GetInternalManifest\<close>, entered from any thread, returns
  without running the callback itself, and after any schedule of the threads, whatever
  the read and the parse gave, every callback that has run has run on the UI thread; no
  task of the pipeline fails. \<^verbatim>\<open>RunManifestCallback\<close> runs the callback inline when it is
  on the UI thread and otherwise posts itself to the UI thread.
\<close>

theorem callbacks_run_on_UI_only:
  "pipeline_world w \<Longrightarrow>
     (\<exists>w1. GetInternalManifest e cur path callback w = Inr w1
        \<and> deliveries (trace w1) = deliveries (trace w)
        \<and> (\<forall>sched. \<exists>w2. run e sched w1 = Inr w2 \<and> callbacks_on_UI (trace w2)))
   \<and> RunManifestCallback e TID_UI callback manifest w = Run e TID_UI callback manifest w
   \<and> (cur \<noteq> TID_UI \<longrightarrow>
        RunManifestCallback e cur callback manifest w =
          Inr (CefPostTask TID_UI (Bind_RunManifestCallback callback manifest) w))"
proof (intro conjI impI)
  assume w: "pipeline_world w"
  from GetInternalManifest_pipeline[OF w, of e cur path callback]
  obtain w1 where g: "GetInternalManifest e cur path callback w = Inr w1"
    and p: "pipeline_world w1"
    and d: "deliveries (trace w1) = deliveries (trace w)"
    by blast
  have "\<exists>w2. run e sched w1 = Inr w2 \<and> callbacks_on_UI (trace w2)" for sched
    using run_pipeline[OF p, of e sched] by (auto simp: pipeline_world_def)
  with g d show "\<exists>w1. GetInternalManifest e cur path callback w = Inr w1
        \<and> deliveries (trace w1) = deliveries (trace w)
        \<and> (\<forall>sched. \<exists>w2. run e sched w1 = Inr w2 \<and> callbacks_on_UI (trace w2))"
    by blast
next
  show "RunManifestCallback e TID_UI callback manifest w = Run e TID_UI callback manifest w"
    by (simp add: RunManifestCallback_def CefCurrentlyOn_def)
next
  assume "cur \<noteq> TID_UI"
  then show "RunManifestCallback e cur callback manifest w =
          Inr (CefPostTask TID_UI (Bind_RunManifestCallback callback manifest) w)"
    by (rule RunManifestCallback_off_UI)
qed

theorem callbacks_run_on_UI_only_witness:
  "pipeline_world idle \<and> TID_IO \<noteq> TID_UI
   \<and> (\<exists>w1. GetInternalManifest bundled_env TID_IO ''set_page_color'' callback0 idle = Inr w1
         \<and> deliveries (trace w1) = deliveries (trace idle)
         \<and> (\<exists>w2. run bundled_env [TID_FILE, TID_UI] w1 = Inr w2
               \<and> callbacks_on_UI (trace w2)
               \<and> deliveries (trace w2) = [(TID_UI, callback0, Some popup_manifest)]))
   \<and> RunManifestCallback bundled_env TID_IO callback0 None idle =
       Inr (CefPostTask TID_UI (Bind_RunManifestCallback callback0 None) idle)"
proof -
  have ne: "TID_IO \<noteq> TID_UI" by simp
  note T = callbacks_run_on_UI_only[OF pipeline_world_idle, of bundled_env TID_IO
      "''set_page_color''" callback0 None]
  from T[THEN conjunct1] obtain w1 where
    g: "GetInternalManifest bundled_env TID_IO ''set_page_color'' callback0 idle = Inr w1"
    and d: "deliveries (trace w1) = deliveries (trace idle)"
    and r: "\<forall>sched. \<exists>w2. run bundled_env sched w1 = Inr w2 \<and> callbacks_on_UI (trace w2)"
    by blast
  from r obtain w2 where
    r2: "run bundled_env [TID_FILE, TID_UI] w1 = Inr w2" and c: "callbacks_on_UI (trace w2)"
    by blast
  have w1: "w1 = CefPostTask TID_FILE (Bind_GetInternalManifest ''set_page_color'' callback0) idle"
    using g by (simp add: GetInternalManifest_off_FILE)
  have "w2 = quiet [Called_LoadBinaryResource TID_FILE
               ''extensions/set_page_color/manifest.json'',
               Callback_Run TID_UI callback0 (Some popup_manifest),
               bound_call callback0 (Some popup_manifest)]"
    using r2 unfolding w1 run_bundled_from_IO by simp
  then have dl: "deliveries (trace w2) = [(TID_UI, callback0, Some popup_manifest)]"
    by (simp add: quiet_def deliveries_bound_call)
  from T[THEN conjunct2, THEN conjunct2] ne
  have p: "RunManifestCallback bundled_env TID_IO callback0 None idle =
       Inr (CefPostTask TID_UI (Bind_RunManifestCallback callback0 None) idle)"
    by simp
  from g d r2 c dl p pipeline_world_idle ne show ?thesis
    by blast
qed

section \<open>Claims about loading and registering\<close>

text \<open>
  Claim C10. For a path that \<^verbatim>\<open>IsInternalExtension\<close> classifies as external,
  \<^verbatim>\<open>LoadExtension\<close> on the UI thread calls the request context's \<^verbatim>\<open>LoadExtension\<close> with
  a null manifest at once and does nothing else; entered from any thread in an idle world,
  under every schedule nothing is ever read with \<^verbatim>\<open>LoadBinaryResource\<close>, nothing is ever
  queued on the FILE thread, and the only event is that one engine call, made once the UI
  thread has had its turn. For an internal path it posts \<^verbatim>\<open>GetInternalManifest\<close> to the
  FILE thread instead. Off the UI thread it posts itself to the UI thread.
\<close>

theorem external_extension_skips_manifest:
  "(IsInternalExtension e path = Inr False \<longrightarrow>
      LoadExtension e TID_UI request_context path handler w =
        Inr (emit (RequestContext_LoadExtension TID_UI request_context path None handler) w)
    \<and> (\<forall>cur sched. \<exists>w1 w2.
          LoadExtension e cur request_context path handler idle = Inr w1
        \<and> run e sched w1 = Inr w2
        \<and> manifest_reads (trace w2) = []
        \<and> queues w2 TID_FILE = []
        \<and> trace w2 =
            (if cur = TID_UI \<or> TID_UI \<in> set sched
             then [RequestContext_LoadExtension TID_UI request_context path None handler]
             else [])))
   \<and> (IsInternalExtension e path = Inr True \<longrightarrow>
        LoadExtension e TID_UI request_context path handler w =
          Inr (CefPostTask TID_FILE
                 (Bind_GetInternalManifest path
                    (Bind_LoadExtensionWithManifest request_context path handler)) w))
   \<and> (cur' \<noteq> TID_UI \<longrightarrow>
        LoadExtension e cur' request_context path handler w =
          Inr (CefPostTask TID_UI (Bind_LoadExtension request_context path handler) w))"
proof (intro conjI impI allI)
  assume "IsInternalExtension e path = Inr False"
  then have ext: "\<not> spec_matches (build_relative_path e path)"
    by (simp add: IsInternalExtension_eq)
  let ?ev = "RequestContext_LoadExtension TID_UI request_context path None handler"
  show "LoadExtension e TID_UI request_context path handler w = Inr (emit ?ev w)"
    using ext by (simp add: LoadExtension_on_UI)
  fix cur sched
  show "\<exists>w1 w2.
          LoadExtension e cur request_context path handler idle = Inr w1
        \<and> run e sched w1 = Inr w2
        \<and> manifest_reads (trace w2) = []
        \<and> queues w2 TID_FILE = []
        \<and> trace w2 = (if cur = TID_UI \<or> TID_UI \<in> set sched then [?ev] else [])"
  proof (cases "cur = TID_UI")
    case True
    have "LoadExtension e cur request_context path handler idle = Inr (quiet [?ev])"
      using ext True by (simp add: LoadExtension_on_UI emit_idle)
    moreover have "run e sched (quiet [?ev]) = Inr (quiet [?ev])"
      by (rule run_quiet)
    ultimately show ?thesis
      using True by (simp add: quiet_def)
  next
    case False
    have 1: "LoadExtension e cur request_context path handler idle =
        Inr (one_UI_task (Bind_LoadExtension request_context path handler) [])"
      using False by (simp add: LoadExtension_off_UI post_UI_idle)
    have "run_task e TID_UI (Bind_LoadExtension request_context path handler) (quiet []) =
        Inr (quiet [?ev])"
      using ext by (simp add: LoadExtension_on_UI emit_quiet)
    from run_one_UI_task[OF this, of sched]
    have 2: "run e sched (one_UI_task (Bind_LoadExtension request_context path handler) []) =
        Inr (if TID_UI \<in> set sched then quiet [?ev]
             else one_UI_task (Bind_LoadExtension request_context path handler) [])" .
    let ?w2 = "if TID_UI \<in> set sched then quiet [?ev]
               else one_UI_task (Bind_LoadExtension request_context path handler) []"
    have "manifest_reads (trace ?w2) = [] \<and> queues ?w2 TID_FILE = []
        \<and> trace ?w2 = (if cur = TID_UI \<or> TID_UI \<in> set sched then [?ev] else [])"
      using False by (simp add: quiet_def one_UI_task_def)
    with 1 2 show ?thesis
      by blast
  qed
next
  assume "IsInternalExtension e path = Inr True"
  then show "LoadExtension e TID_UI request_context path handler w =
          Inr (CefPostTask TID_FILE
                 (Bind_GetInternalManifest path
                    (Bind_LoadExtensionWithManifest request_context path handler)) w)"
    by (simp add: LoadExtension_on_UI IsInternalExtension_eq)
next
  assume "cur' \<noteq> TID_UI"
  then show "LoadExtension e cur' request_context path handler w =
          Inr (CefPostTask TID_UI (Bind_LoadExtension request_context path handler) w)"
    by (rule LoadExtension_off_UI)
qed

theorem external_extension_skips_manifest_witness:
  "IsInternalExtension posix_env other_path = Inr False
   \<and> LoadExtension posix_env TID_UI 0 other_path 0 idle =
       Inr (quiet [RequestContext_LoadExtension TID_UI 0 other_path None 0])
   \<and> (\<exists>w1 w2. LoadExtension posix_env TID_IO 0 other_path 0 idle = Inr w1
         \<and> run posix_env [TID_FILE, TID_UI] w1 = Inr w2
         \<and> manifest_reads (trace w2) = []
         \<and> queues w2 TID_FILE = []
         \<and> trace w2 = [RequestContext_LoadExtension TID_UI 0 other_path None 0])
   \<and> IsInternalExtension posix_env ''set_page_color'' = Inr True
   \<and> LoadExtension posix_env TID_UI 0 ''set_page_color'' 0 idle =
       Inr (CefPostTask TID_FILE
              (Bind_GetInternalManifest ''set_page_color''
                 (Bind_LoadExtensionWithManifest 0 ''set_page_color'' 0)) idle)
   \<and> TID_FILE \<noteq> TID_UI
   \<and> LoadExtension posix_env TID_FILE 0 other_path 0 idle =
       Inr (CefPostTask TID_UI (Bind_LoadExtension 0 other_path 0) idle)"
proof -
  note T = external_extension_skips_manifest[where e = posix_env and request_context = 0
      and handler = 0 and w = idle and cur' = TID_FILE]
  note E = T[of other_path, THEN conjunct1, rule_format, OF IsInternalExtension_other_path]
  have 1: "LoadExtension posix_env TID_UI 0 other_path 0 idle =
       Inr (quiet [RequestContext_LoadExtension TID_UI 0 other_path None 0])"
    using E[THEN conjunct1] by (simp add: emit_idle)
  have 2: "\<exists>w1 w2. LoadExtension posix_env TID_IO 0 other_path 0 idle = Inr w1
         \<and> run posix_env [TID_FILE, TID_UI] w1 = Inr w2
         \<and> manifest_reads (trace w2) = []
         \<and> queues w2 TID_FILE = []
         \<and> trace w2 = [RequestContext_LoadExtension TID_UI 0 other_path None 0]"
    using E[THEN conjunct2, THEN spec[of _ TID_IO], THEN spec[of _ "[TID_FILE, TID_UI]"]]
    by simp
  have 3: "LoadExtension posix_env TID_UI 0 ''set_page_color'' 0 idle =
       Inr (CefPostTask TID_FILE
              (Bind_GetInternalManifest ''set_page_color''
                 (Bind_LoadExtensionWithManifest 0 ''set_page_color'' 0)) idle)"
    using T[of "''set_page_color''", THEN conjunct2, THEN conjunct1]
      IsInternalExtension_posix_set_page_color
    by simp
  have ne: "TID_FILE \<noteq> TID_UI" by simp
  have 4: "LoadExtension posix_env TID_FILE 0 other_path 0 idle =
       Inr (CefPostTask TID_UI (Bind_LoadExtension 0 other_path 0) idle)"
    using T[of other_path, THEN conjunct2, THEN conjunct2] ne by simp
  show ?thesis
    by (intro conjI IsInternalExtension_other_path 1 2
        IsInternalExtension_posix_set_page_color 3 ne 4)
qed

text \<open>
  Claim C9, as the code has it. In a build that compiles \<^verbatim>\<open>DCHECK\<close> in, calling
  \<^verbatim>\<open>AddInternalExtensionToResourceManager\<close> for an extension whose path is not internal is
  fatal on whatever thread the call is made, before any re-dispatch, and so is the posted
  task. For an internal path the call does not fail. In a build that compiles \<^verbatim>\<open>DCHECK\<close>
  out the call never fails.
\<close>

theorem AddInternalExtensionToResourceManager_precondition:
  "(dcheck_is_on e \<and> IsInternalExtension e (GetPath extension) = Inr False \<longrightarrow>
       AddInternalExtensionToResourceManager e cur extension resource_manager w
         = Inl DCHECK_failed
     \<and> run_task e cur (Bind_AddInternalExtensionToResourceManager extension resource_manager) w
         = Inl DCHECK_failed)
   \<and> (IsInternalExtension e (GetPath extension) = Inr True \<longrightarrow>
        (\<exists>w'. AddInternalExtensionToResourceManager e cur extension resource_manager w = Inr w'))
   \<and> (\<not> dcheck_is_on e \<longrightarrow>
        (\<exists>w'. AddInternalExtensionToResourceManager e cur extension resource_manager w = Inr w'))"
  by (auto simp: AddInternalExtensionToResourceManager_def DCHECK_passes_def
      GetInternalExtensionResourcePath_eq IsInternalExtension_eq Let_def
      split: platform.splits option.splits)

theorem AddInternalExtensionToResourceManager_precondition_witness:
  "dcheck_is_on win_env
   \<and> IsInternalExtension win_env (GetPath external_extension) = Inr False
   \<and> AddInternalExtensionToResourceManager win_env TID_UI external_extension 0 idle
       = Inl DCHECK_failed
   \<and> run_task win_env TID_IO (Bind_AddInternalExtensionToResourceManager external_extension 0) idle
       = Inl DCHECK_failed
   \<and> IsInternalExtension win_env (GetPath internal_extension) = Inr True
   \<and> (\<exists>w'. AddInternalExtensionToResourceManager win_env TID_IO internal_extension 0 idle
              = Inr w')
   \<and> dcheck_is_on release_env = False
   \<and> (\<exists>w'. AddInternalExtensionToResourceManager release_env TID_UI external_extension 0 idle
              = Inr w')"
proof -
  note T = AddInternalExtensionToResourceManager_precondition[where resource_manager = 0
      and w = idle]
  from T[of win_env external_extension TID_UI, THEN conjunct1]
    T[of win_env external_extension TID_IO, THEN conjunct1]
    T[of win_env internal_extension TID_IO, THEN conjunct2, THEN conjunct1]
    T[of release_env external_extension TID_UI, THEN conjunct2, THEN conjunct2]
    dcheck_envs IsInternalExtension_external_extension(1)
    IsInternalExtension_internal_extension
  show ?thesis by simp
qed

text \<open>
  In a build without \<^verbatim>\<open>DCHECK\<close> the claim as worded fails: for a path that is not
  internal the call on the IO thread registers a provider, and elsewhere it posts itself
  to the IO thread.
\<close>

theorem AddInternalExtensionToResourceManager_release_counterexample:
  "IsInternalExtension release_env (GetPath external_extension) = Inr False
   \<and> AddInternalExtensionToResourceManager release_env TID_IO external_extension 0 idle =
       Inr (quiet [AddProvider TID_IO 0
                     (BinaryResourceProvider ''chrome-extension://abc123/'' ''extensions/other'')
                     50 []])
   \<and> AddInternalExtensionToResourceManager release_env TID_UI external_extension 0 idle =
       Inr (CefPostTask TID_IO
              (Bind_AddInternalExtensionToResourceManager external_extension 0) idle)"
proof -
  have p: "GetInternalExtensionResourcePath release_env (GetPath external_extension)
      = Inr ''extensions/other''"
    by (simp add: GetInternalExtensionResourcePath_eq eval_path release_root
        platform_release_env external_extension_def)
  have i: "GetIdentifier external_extension = ''abc123''"
    by (simp add: external_extension_def)
  show ?thesis
    by (simp add: IsInternalExtension_external_extension AddInternalExtensionToResourceManager_def
        dcheck_envs DCHECK_passes_def CefCurrentlyOn_def p i GetExtensionOrigin_def
        platform_release_env emit_idle)
qed

end
